theory Spec2Isabelle
  imports Main
begin

section \<open>Strings as the sync code uses them\<close>

text \<open>
  JavaScript strings are modelled as \<open>string\<close>. Case mapping and the character classes
  of the regular expressions (\<open>[a-z]\<close>, \<open>[A-Z]\<close>, \<open>\d\<close>, \<open>\s\<close>) are the ASCII ones:
  \<open>toLowerCase\<close> and \<open>toUpperCase\<close> change the 26 letters and leave every other
  character as it is.
\<close>

definition upper_letters :: string where
  "upper_letters = ''ABCDEFGHIJKLMNOPQRSTUVWXYZ''"

definition lower_letters :: string where
  "lower_letters = ''abcdefghijklmnopqrstuvwxyz''"

definition is_upper :: "char \<Rightarrow> bool" where
  "is_upper c = (c \<in> set upper_letters)"

definition is_lower :: "char \<Rightarrow> bool" where
  "is_lower c = (c \<in> set lower_letters)"

definition is_digit :: "char \<Rightarrow> bool" where
  "is_digit c = (c \<in> set ''0123456789'')"

definition is_letter :: "char \<Rightarrow> bool" where
  "is_letter c = (is_upper c \<or> is_lower c)"

definition lower_char :: "char \<Rightarrow> char" where
  "lower_char c = (case map_of (zip upper_letters lower_letters) c of Some d \<Rightarrow> d | None \<Rightarrow> c)"

definition upper_char :: "char \<Rightarrow> char" where
  "upper_char c = (case map_of (zip lower_letters upper_letters) c of Some d \<Rightarrow> d | None \<Rightarrow> c)"

definition toLowerCase :: "string \<Rightarrow> string" where
  "toLowerCase s = map lower_char s"

definition toUpperCase :: "string \<Rightarrow> string" where
  "toUpperCase s = map upper_char s"

fun startsWith :: "string \<Rightarrow> string \<Rightarrow> bool" where
  "startsWith s [] = True"
| "startsWith [] (p # ps) = False"
| "startsWith (c # cs) (p # ps) = (c = p \<and> startsWith cs ps)"

text \<open>\<open>str_includes s p\<close> is \<open>s.includes(p)\<close>: \<open>p\<close> occurs in \<open>s\<close> as a substring.\<close>

fun str_includes :: "string \<Rightarrow> string \<Rightarrow> bool" where
  "str_includes [] p = (p = [])"
| "str_includes (c # cs) p = (startsWith (c # cs) p \<or> str_includes cs p)"

text \<open>\<open>s.split(sep)\<close> for a one-character separator, and \<open>parts.join(sep)\<close>.\<close>

fun split_on :: "char \<Rightarrow> string \<Rightarrow> string list" where
  "split_on sep [] = [[]]"
| "split_on sep (c # cs) =
     (if c = sep then [] # split_on sep cs
      else (case split_on sep cs of [] \<Rightarrow> [[c]] | w # ws \<Rightarrow> (c # w) # ws))"

fun join_with :: "string \<Rightarrow> string list \<Rightarrow> string" where
  "join_with sep [] = []"
| "join_with sep [w] = w"
| "join_with sep (w # v # ws) = w @ sep @ join_with sep (v # ws)"

text \<open>Truthiness of an optional string: absent and the empty string are falsy.\<close>

fun truthy :: "string option \<Rightarrow> bool" where
  "truthy None = False"
| "truthy (Some s) = (s \<noteq> [])"

text \<open>\<open>x || ''\<close> for an optional string.\<close>

fun or_empty :: "string option \<Rightarrow> string" where
  "or_empty None = []"
| "or_empty (Some s) = s"

text \<open>An optional string inside a template literal: an absent value prints as \<open>undefined\<close>.\<close>

fun template_of :: "string option \<Rightarrow> string" where
  "template_of None = ''undefined''"
| "template_of (Some s) = s"

datatype exn = Error string

fun message :: "exn \<Rightarrow> string" where
  "message (Error m) = m"

section \<open>Upstream data\<close>

text \<open>
  The JSON objects of the upstream API, with the attributes the sync code reads. An
  attribute that may be missing is an \<open>option\<close>; an array attribute is a list, where the
  missing array and the empty one are both \<open>[]\<close> (the code treats them alike).
\<close>

datatype district_value = DistrictNumber int | DistrictText string

record role =
  role_district :: "district_value option"
  role_org_classification :: "string option"
  role_title :: "string option"

record office =
  office_voice :: "string option"
  office_address :: "string option"

record person =
  person_id :: "string option"
  person_name :: "string option"
  given_name :: "string option"
  family_name :: "string option"
  image :: "string option"
  biography :: "string option"
  email :: "string option"
  party :: "string option"
  current_role :: "role option"
  person_jurisdiction_name :: "string option"
  offices :: "office list"
  link_urls :: "string option list"

record bill =
  bill_id :: "string option"
  bill_identifier :: "string option"
  bill_title :: "string option"
  abstracts :: "string option list"
  openstates_url :: "string option"
  latest_action_description :: "string option"
  latest_action_date :: "string option"
  first_action_date :: "string option"
  classification :: "string list"
  from_organization_classification :: "string option"
  sponsorships :: "person option list"
  bill_subject :: "string list"

section \<open>Field normalizers\<close>

subsection \<open>determineStatus\<close>

definition determineStatus :: "bill \<Rightarrow> string" where
  "determineStatus b =
     (if \<not> truthy (latest_action_description b) then ''Introduced''
      else
        let action = toLowerCase (or_empty (latest_action_description b)) in
        if str_includes action ''signed'' \<or> str_includes action ''enacted'' then ''Enacted''
        else if str_includes action ''vetoed'' then ''Vetoed''
        else if str_includes action ''failed'' \<or> str_includes action ''died'' then ''Failed''
        else if str_includes action ''passed'' \<and> str_includes action ''senate'' then ''Passed Senate''
        else if str_includes action ''passed'' \<and> str_includes action ''house'' then ''Passed House''
        else if str_includes action ''committee'' then ''In Committee''
        else ''Introduced'')"

text \<open>
  The specification's wording of the same function: a fixed, ordered table of keyword
  rules read against the lower-cased description, the first rule that matches giving
  the status and \<open>Introduced\<close> being the default.
\<close>

definition status_values :: "string list" where
  "status_values =
     [''Introduced'', ''In Committee'', ''Passed House'', ''Passed Senate'',
      ''Enacted'', ''Vetoed'', ''Failed'']"

text \<open>A rule is a disjunction of conjunctions of keywords, with the status it infers.\<close>

definition status_rules :: "(string list list \<times> string) list" where
  "status_rules =
     [([[''signed''], [''enacted'']], ''Enacted''),
      ([[''vetoed'']], ''Vetoed''),
      ([[''failed''], [''died'']], ''Failed''),
      ([[''passed'', ''senate'']], ''Passed Senate''),
      ([[''passed'', ''house'']], ''Passed House''),
      ([[''committee'']], ''In Committee'')]"

definition rule_matches :: "string \<Rightarrow> string list list \<Rightarrow> bool" where
  "rule_matches action alts = list_ex (\<lambda>kws. list_all (str_includes action) kws) alts"

fun first_matching_rule :: "string \<Rightarrow> (string list list \<times> string) list \<Rightarrow> string" where
  "first_matching_rule action [] = ''Introduced''"
| "first_matching_rule action ((alts, st) # rules) =
     (if rule_matches action alts then st else first_matching_rule action rules)"

definition status_by_rules :: "string option \<Rightarrow> string" where
  "status_by_rules d = first_matching_rule (toLowerCase (or_empty d)) status_rules"

subsection \<open>normalizeDate\<close>

text \<open>
  A regular expression without repetition is a list of character patterns read from a
  given position: a digit \<open>\d\<close>, a literal character, a literal letter under the
  flag \<open>i\<close>, and the class \<open>[a-z]\<close> under the flag \<open>i\<close>. The first pattern is
  \<open>^(\d{4}-\d{2}-\d{2})\<close>.
\<close>

datatype pat = Digit | Lit char | AnyCase char | Letter

fun match_pat :: "pat list \<Rightarrow> string \<Rightarrow> bool" where
  "match_pat [] s = True"
| "match_pat (p # ps) [] = False"
| "match_pat (Digit # ps) (c # cs) = (is_digit c \<and> match_pat ps cs)"
| "match_pat (Lit l # ps) (c # cs) = (c = l \<and> match_pat ps cs)"
| "match_pat (AnyCase l # ps) (c # cs) = (lower_char c = lower_char l \<and> match_pat ps cs)"
| "match_pat (Letter # ps) (c # cs) = (is_letter c \<and> match_pat ps cs)"

definition date_pattern :: "pat list" where
  "date_pattern =
     [Digit, Digit, Digit, Digit, Lit (CHR ''-''), Digit, Digit, Lit (CHR ''-''), Digit, Digit]"

definition date_prefix :: "string \<Rightarrow> string option" where
  "date_prefix s = (if match_pat date_pattern s then Some (take 10 s) else None)"

text \<open>
  \<open>new Date(s)\<close> followed by \<open>toISOString().split('T')[0]\<close> belongs to the JavaScript
  runtime and is a parameter \<open>parse\<close>: \<open>Inr (Some day)\<close> is a valid date with its ISO
  calendar date, \<open>Inr None\<close> an invalid date, \<open>Inl e\<close> an exception thrown on the way.
\<close>

type_synonym date_parser = "string \<Rightarrow> exn + string option"

text \<open>The body of the \<open>try\<close> block.\<close>

definition normalizeDate_try :: "date_parser \<Rightarrow> string \<Rightarrow> exn + string option" where
  "normalizeDate_try parse s =
     (case date_prefix s of
        Some d \<Rightarrow> Inr (Some d)
      | None \<Rightarrow>
          (case parse s of
             Inl e \<Rightarrow> Inl e
           | Inr (Some day) \<Rightarrow> Inr (Some day)
           | Inr None \<Rightarrow> Inr (Some s)))"

text \<open>
  The whole function: a falsy argument (\<open>null\<close>, \<open>undefined\<close>, the empty string)
  gives \<open>null\<close> before anything else; an exception of the \<open>try\<close> block is caught and
  the argument returned.
\<close>

definition normalizeDate :: "date_parser \<Rightarrow> string option \<Rightarrow> exn + string option" where
  "normalizeDate parse d =
     (if \<not> truthy d then Inr None
      else (case normalizeDate_try parse (or_empty d) of
              Inl e \<Rightarrow> Inr d
            | Inr r \<Rightarrow> Inr r))"

text \<open>A runtime whose date parser accepts no string.\<close>

definition rejecting_parser :: date_parser where
  "rejecting_parser s = Inr None"

subsection \<open>formatSubjectName\<close>

text \<open>
  The values a record field or a formatted subject name can hold: a string, a list of
  linked record ids, \<open>null\<close>, or a member that a plain object inherits from
  \<open>Object.prototype\<close> (named by its property key).
\<close>

datatype jsval = Str string | RecIds "nat list" | Null | Inherited string

text \<open>\<open>word.charAt(0).toUpperCase() + word.slice(1).toLowerCase()\<close>\<close>

definition titleCaseWord :: "string \<Rightarrow> string" where
  "titleCaseWord word = toUpperCase (take 1 word) @ toLowerCase (drop 1 word)"

text \<open>
  \<open>.replace(/([a-z])([A-Z])/g, '$1 $2')\<close>: matches are found left to right and do not
  overlap; the search goes on behind the two characters of a match.
\<close>

fun spaceLowerUpper :: "string \<Rightarrow> string" where
  "spaceLowerUpper (a # b # cs) =
     (if is_lower a \<and> is_upper b then a # CHR '' '' # b # spaceLowerUpper cs
      else a # spaceLowerUpper (b # cs))"
| "spaceLowerUpper cs = cs"

text \<open>\<open>.replace(/([A-Z])([A-Z][a-z])/g, '$1 $2')\<close>, a match being three characters long.\<close>

fun spaceUpperWord :: "string \<Rightarrow> string" where
  "spaceUpperWord (a # b # c # cs) =
     (if is_upper a \<and> is_upper b \<and> is_lower c then a # CHR '' '' # b # c # spaceUpperWord cs
      else a # spaceUpperWord (b # c # cs))"
| "spaceUpperWord cs = cs"

text \<open>The own properties of the object literal \<open>commonWords\<close>.\<close>

definition commonWords :: "(string \<times> string) list" where
  "commonWords =
     [(''lawenforcement'', ''Law Enforcement''),
      (''publicsafety'', ''Public Safety''),
      (''racialandidentityprofiling'', ''Racial And Identity Profiling''),
      (''foodvendorsandfacilities'', ''Food Vendors And Facilities''),
      (''enforcementactivities'', ''Enforcement Activities''),
      (''preapprenticeshipprathway'', ''Pre-Apprenticeship Pathway''),
      (''peaceofficers'', ''Peace Officers''),
      (''confidentialityofrecords'', ''Confidentiality Of Records''),
      (''sexualassaultforensicevid'', ''Sexual Assault Forensic Evidence''),
      (''californiascienceandhealth'', ''California Science And Health''),
      (''economicdevelopment'', ''Economic Development''),
      (''industrystrategies'', ''Industry Strategies''),
      (''equitablecleanenergysup'', ''Equitable Clean Energy Supply'')]"

text \<open>
  \<open>commonWords\<close> is an object literal, so \<open>commonWords[key]\<close> reads an own property
  first and then the members every object inherits from \<open>Object.prototype\<close>; all of
  them are truthy. Any other key gives \<open>undefined\<close>, here \<open>None\<close>.
\<close>

definition object_prototype_members :: "string list" where
  "object_prototype_members =
     [''constructor'', ''__proto__'', ''hasOwnProperty'', ''isPrototypeOf'',
      ''propertyIsEnumerable'', ''toLocaleString'', ''toString'', ''valueOf'',
      ''__defineGetter__'', ''__defineSetter__'', ''__lookupGetter__'', ''__lookupSetter__'']"

definition commonWords_get :: "string \<Rightarrow> jsval option" where
  "commonWords_get key =
     (case map_of commonWords key of
        Some v \<Rightarrow> Some (Str v)
      | None \<Rightarrow> if key \<in> set object_prototype_members then Some (Inherited key) else None)"

text \<open>The value of \<open>formatted\<close> when the dictionary is consulted.\<close>

definition formatted_label :: "string \<Rightarrow> string" where
  "formatted_label subject =
     (if CHR ''_'' \<in> set subject
      then join_with '' '' (map titleCaseWord (split_on (CHR ''_'') subject))
      else
        let formatted = spaceUpperWord (spaceLowerUpper subject)
        in toUpperCase (take 1 formatted) @ drop 1 formatted)"

definition formatSubjectName :: "string \<Rightarrow> jsval" where
  "formatSubjectName subject =
     (let formatted = formatted_label subject;
          lowerFormatted = toLowerCase formatted
      in case commonWords_get lowerFormatted of
           Some v \<Rightarrow> v
         | None \<Rightarrow> Str formatted)"

section \<open>The record store and the upstream API\<close>

text \<open>
  The record store is an external service. A table is the list of its records in the
  order of their creation, a record is a partial map from field names to values, and
  the internal id of a record is its position in the table (records are never deleted).
  The query with \<open>filterByFormula: {F} = 'V'\<close> and \<open>maxRecords: 1\<close> is read as: the
  first record whose field \<open>F\<close> holds the text \<open>V\<close>. Every request to the store may
  fail: \<open>store_faults\<close> scripts the outcome of the coming requests (\<open>Some m\<close>: the request
  throws an error with message \<open>m\<close>), and once the script is used up no request fails.
  \<open>api_calls\<close> is the trace of the requests sent to the upstream API.
\<close>

type_synonym fields = "string \<rightharpoonup> jsval"

datatype api_request =
    GetBills string nat
  | GetPeople "string list"
  | GetJurisdiction string

record world =
  tables :: "string \<Rightarrow> fields list"
  store_faults :: "string option list"
  api_calls :: "api_request list"

record jurisdiction =
  jurisdiction_id :: "string option"
  jurisdiction_name :: "string option"
  legislature_name :: "string option"
  legislative_sessions :: "string list"

text \<open>
  What the process is given from outside: the answers of the upstream API (a pure
  function of the request, so the upstream data is the same at every call), the date
  parser of the runtime and the configured webhook secret. A session of a jurisdiction
  is kept as the JSON text that \<open>JSON.stringify\<close> gives for it.
\<close>

record env =
  bills_api :: "string \<Rightarrow> nat \<Rightarrow> exn + bill list"
  people_api :: "string list \<Rightarrow> exn + person list"
  jurisdictions_api :: "string \<Rightarrow> exn + jurisdiction"
  date_parse :: date_parser
  webhook_secret :: "string option"

text \<open>
  \<open>fetchFromPluralAPI\<close> at its three call sites: \<open>/bills\<close> with jurisdiction and page
  size (a missing \<open>results\<close> is the empty list), \<open>/people\<close> with a list of ids, and
  \<open>/jurisdictions/<state>\<close>. Each call sends one request; a response that is not ok
  throws.
\<close>

definition fetchBills :: "env \<Rightarrow> world \<Rightarrow> string \<Rightarrow> nat \<Rightarrow> (exn + bill list) \<times> world" where
  "fetchBills env w jur per_page =
     (bills_api env jur per_page, w\<lparr>api_calls := api_calls w @ [GetBills jur per_page]\<rparr>)"

definition fetchPeople :: "env \<Rightarrow> world \<Rightarrow> string list \<Rightarrow> (exn + person list) \<times> world" where
  "fetchPeople env w ids =
     (people_api env ids, w\<lparr>api_calls := api_calls w @ [GetPeople ids]\<rparr>)"

definition fetchJurisdiction :: "env \<Rightarrow> world \<Rightarrow> string \<Rightarrow> (exn + jurisdiction) \<times> world" where
  "fetchJurisdiction env w st =
     (jurisdictions_api env st, w\<lparr>api_calls := api_calls w @ [GetJurisdiction st]\<rparr>)"

text \<open>The outcome the fault script holds for the next store request.\<close>

definition next_fault :: "world \<Rightarrow> exn option \<times> world" where
  "next_fault w =
     (case store_faults w of
        [] \<Rightarrow> (None, w)
      | f # fs \<Rightarrow> (map_option Error f, w\<lparr>store_faults := fs\<rparr>))"

definition field_is :: "string \<Rightarrow> string \<Rightarrow> fields \<Rightarrow> bool" where
  "field_is searchField searchValue flds = (flds searchField = Some (Str searchValue))"

fun find_record :: "(fields \<Rightarrow> bool) \<Rightarrow> fields list \<Rightarrow> nat option" where
  "find_record P [] = None"
| "find_record P (r # rs) = (if P r then Some 0 else map_option Suc (find_record P rs))"

text \<open>\<open>base(table).select({filterByFormula, maxRecords: 1}).firstPage()\<close>\<close>

definition select_first :: "world \<Rightarrow> string \<Rightarrow> string \<Rightarrow> string \<Rightarrow> (exn + nat list) \<times> world" where
  "select_first w tableName searchField searchValue =
     (case next_fault w of
        (Some e, w1) \<Rightarrow> (Inl e, w1)
      | (None, w1) \<Rightarrow>
          (case find_record (field_is searchField searchValue) (tables w1 tableName) of
             None \<Rightarrow> (Inr [], w1)
           | Some i \<Rightarrow> (Inr [i], w1)))"

text \<open>\<open>base(table).update(id, recordData)\<close>: a partial update, other fields stay.\<close>

definition update_record :: "world \<Rightarrow> string \<Rightarrow> nat \<Rightarrow> fields \<Rightarrow> (exn + nat) \<times> world" where
  "update_record w tableName rid recordData =
     (case next_fault w of
        (Some e, w1) \<Rightarrow> (Inl e, w1)
      | (None, w1) \<Rightarrow>
          (let rows = tables w1 tableName
           in if rid < length rows
              then (Inr rid,
                    w1\<lparr>tables := (tables w1)(tableName := rows[rid := (rows ! rid) ++ recordData])\<rparr>)
              else (Inl (Error ''record not found''), w1)))"

text \<open>\<open>base(table).create(recordData)\<close>\<close>

definition create_record :: "world \<Rightarrow> string \<Rightarrow> fields \<Rightarrow> (exn + nat) \<times> world" where
  "create_record w tableName recordData =
     (case next_fault w of
        (Some e, w1) \<Rightarrow> (Inl e, w1)
      | (None, w1) \<Rightarrow>
          (let rows = tables w1 tableName
           in (Inr (length rows), w1\<lparr>tables := (tables w1)(tableName := rows @ [recordData])\<rparr>)))"

section \<open>The upsert reconciler\<close>

text \<open>The \<open>catch\<close> of \<open>findOrCreateRecord\<close> logs and rethrows, so an error is passed on.\<close>

definition findOrCreateRecord ::
  "world \<Rightarrow> string \<Rightarrow> string \<Rightarrow> string \<Rightarrow> fields \<Rightarrow> (exn + nat) \<times> world" where
  "findOrCreateRecord w tableName searchField searchValue recordData =
     (case select_first w tableName searchField searchValue of
        (Inl e, w1) \<Rightarrow> (Inl e, w1)
      | (Inr records, w1) \<Rightarrow>
          (case records of
             r # _ \<Rightarrow> update_record w1 tableName r recordData
           | [] \<Rightarrow> create_record w1 tableName recordData))"

section \<open>Entity sync units\<close>

subsection \<open>Legislators\<close>

text \<open>
  \<open>String(n)\<close> for an integer: all its decimal digits (JavaScript switches to exponent
  notation from \<open>1e21\<close> on; districts are far below).
\<close>

function show_nat :: "nat \<Rightarrow> string" where
  "show_nat n =
     (if n < 10 then [''0123456789'' ! n]
      else show_nat (n div 10) @ [''0123456789'' ! (n mod 10)])"
  by pat_completeness auto
termination
  by (relation "measure (\<lambda>n. n)") auto

declare show_nat.simps [simp del]

definition show_int :: "int \<Rightarrow> string" where
  "show_int i = (if i < 0 then CHR ''-'' # show_nat (nat (- i)) else show_nat (nat i))"

fun district_truthy :: "district_value \<Rightarrow> bool" where
  "district_truthy (DistrictNumber n) = (n \<noteq> 0)"
| "district_truthy (DistrictText s) = (s \<noteq> [])"

fun district_string :: "district_value \<Rightarrow> string" where
  "district_string (DistrictNumber n) = show_int n"
| "district_string (DistrictText s) = s"

text \<open>\<open>if (x) recordData[key] = x\<close> for an optional string \<open>x\<close>.\<close>

definition set_optional :: "string \<Rightarrow> string option \<Rightarrow> fields \<Rightarrow> fields" where
  "set_optional key x recordData =
     (if truthy x then recordData(key \<mapsto> Str (or_empty x)) else recordData)"

record officeInfo =
  info_phone :: "string option"
  info_address :: "string option"
  info_links :: "string list"

definition extractOfficeInfo :: "person \<Rightarrow> officeInfo" where
  "extractOfficeInfo p =
     (let first_office = (case offices p of [] \<Rightarrow> None | off # _ \<Rightarrow> Some off)
      in \<lparr>info_phone =
            (case first_office of None \<Rightarrow> None
             | Some off \<Rightarrow> if truthy (office_voice off) then office_voice off else None),
          info_address =
            (case first_office of None \<Rightarrow> None
             | Some off \<Rightarrow> if truthy (office_address off) then office_address off else None),
          info_links = map or_empty (filter truthy (link_urls p))\<rparr>)"

text \<open>The field set built for one person (the object \<open>recordData\<close> of the main loop).\<close>

definition legislatorRecordData :: "person \<Rightarrow> fields" where
  "legislatorRecordData fullPersonData =
     (let district =
            (case Option.bind (current_role fullPersonData) role_district of
               None \<Rightarrow> []
             | Some d \<Rightarrow> if district_truthy d then district_string d else []);
          officeInfo = extractOfficeInfo fullPersonData;
          recordData = [''Full Name'' \<mapsto> Str (or_empty (person_name fullPersonData)),
                        ''OpenStates ID'' \<mapsto> Str (or_empty (person_id fullPersonData))];
          recordData = set_optional ''First Name'' (given_name fullPersonData) recordData;
          recordData = set_optional ''Last Name'' (family_name fullPersonData) recordData;
          recordData = set_optional ''District'' (Some district) recordData;
          recordData = set_optional ''Photo URL'' (image fullPersonData) recordData;
          recordData = set_optional ''Biography'' (biography fullPersonData) recordData;
          recordData = set_optional ''Contact Email'' (email fullPersonData) recordData;
          recordData = set_optional ''Party'' (party fullPersonData) recordData;
          recordData = set_optional ''Chamber''
             (Option.bind (current_role fullPersonData) role_org_classification) recordData;
          recordData = set_optional ''State'' (person_jurisdiction_name fullPersonData) recordData;
          recordData = set_optional ''Title''
             (Option.bind (current_role fullPersonData) role_title) recordData;
          recordData = set_optional ''Phone'' (info_phone officeInfo) recordData;
          recordData = set_optional ''Office Address'' (info_address officeInfo) recordData;
          recordData =
            (if info_links officeInfo \<noteq> []
             then recordData(''Links'' \<mapsto> Str (join_with [CHR 0x0A] (info_links officeInfo)))
             else recordData)
      in recordData)"

text \<open>\<open>[...new Set(xs)]\<close>: the distinct elements in the order of their first occurrence.\<close>

definition uniq :: "'a list \<Rightarrow> 'a list" where
  "uniq xs = rev (remdups (rev xs))"

definition personIds_of :: "person list \<Rightarrow> string list" where
  "personIds_of people = uniq (map or_empty (filter truthy (map person_id people)))"

definition chunkSize :: nat where
  "chunkSize = 10"

text \<open>
  The chunk loop \<open>for (let i = 0; i < personIds.length; i += chunkSize)\<close>. A chunk whose
  request throws is logged and skipped; the people of a chunk that arrives are stored
  in \<open>peopleMap\<close> under their id.
\<close>

type_synonym people_map = "string option \<rightharpoonup> person"

text \<open>
  What the \<open>try\<close> around one chunk request leaves in \<open>peopleMap\<close>: nothing new when
  the request throws, the people of the answer otherwise.
\<close>

definition store_chunk :: "exn + person list \<Rightarrow> people_map \<Rightarrow> people_map" where
  "store_chunk response peopleMap =
     (case response of
        Inl chunkError \<Rightarrow> peopleMap
      | Inr results \<Rightarrow> fold (\<lambda>p m. m(person_id p \<mapsto> p)) results peopleMap)"

function fetchChunks ::
  "env \<Rightarrow> world \<Rightarrow> string list \<Rightarrow> nat \<Rightarrow> people_map \<Rightarrow> people_map \<times> world" where
  "fetchChunks env w personIds i peopleMap =
     (if i < length personIds then
        (let chunk = take chunkSize (drop i personIds)
         in case fetchPeople env w chunk of
              (response, w1) \<Rightarrow>
                fetchChunks env w1 personIds (i + chunkSize) (store_chunk response peopleMap))
      else (peopleMap, w))"
  by pat_completeness auto
termination
  by (relation "measure (\<lambda>(env, w, personIds, i, peopleMap). length personIds - i)")
    (auto simp: chunkSize_def)

declare fetchChunks.simps [simp del]

text \<open>\<open>peopleMap.get(person.id) || person\<close>\<close>

definition fullPersonData_of :: "people_map \<Rightarrow> person \<Rightarrow> person" where
  "fullPersonData_of peopleMap p =
     (case peopleMap (person_id p) of Some full \<Rightarrow> full | None \<Rightarrow> p)"

text \<open>The body of the \<open>try\<close> inside \<open>for (const person of people)\<close>.\<close>

definition syncLegislator :: "world \<Rightarrow> people_map \<Rightarrow> person \<Rightarrow> (exn + nat) \<times> world" where
  "syncLegislator w peopleMap p =
     (let fullPersonData = fullPersonData_of peopleMap p
      in findOrCreateRecord w ''Legislators'' ''OpenStates ID''
           (template_of (person_id fullPersonData)) (legislatorRecordData fullPersonData))"

fun syncLegislators_loop ::
  "world \<Rightarrow> people_map \<Rightarrow> person list \<Rightarrow> nat list \<Rightarrow> nat list \<times> world" where
  "syncLegislators_loop w peopleMap [] legislatorIds = (legislatorIds, w)"
| "syncLegislators_loop w peopleMap (p # rest) legislatorIds =
     (case syncLegislator w peopleMap p of
        (Inr recordId, w1) \<Rightarrow> syncLegislators_loop w1 peopleMap rest (legislatorIds @ [recordId])
      | (Inl error, w1) \<Rightarrow> syncLegislators_loop w1 peopleMap rest legislatorIds)"

text \<open>
  \<open>syncLegislators\<close>. Every statement of the outer \<open>try\<close> that can throw sits in a
  \<open>try\<close> of its own (the chunk request, the reconciliation of one person), so the
  outer \<open>catch\<close> with its fallback loop is never entered and has no branch here.
\<close>

definition syncLegislators :: "env \<Rightarrow> world \<Rightarrow> person list \<Rightarrow> nat list \<times> world" where
  "syncLegislators env w people =
     (if people = [] then ([], w)
      else
        let personIds = personIds_of people
        in if personIds = [] then ([], w)
           else (case fetchChunks env w personIds 0 Map.empty of
                   (peopleMap, w1) \<Rightarrow> syncLegislators_loop w1 peopleMap people []))"

subsection \<open>Subjects\<close>

definition categories :: "(string \<times> string list) list" where
  "categories =
     [(''Health'', [''health'', ''healthcare'', ''medical'', ''hospital'', ''medicare'', ''medicaid'']),
      (''Education'', [''education'', ''school'', ''university'', ''teacher'', ''student'']),
      (''Environment'', [''environment'', ''climate'', ''energy'', ''pollution'', ''conservation'']),
      (''Economy'', [''tax'', ''budget'', ''finance'', ''economy'', ''business'', ''commerce'']),
      (''Justice'', [''crime'', ''criminal'', ''justice'', ''court'', ''police'', ''prison'']),
      (''Transportation'', [''transportation'', ''highway'', ''road'', ''transit'', ''vehicle''])]"

definition categorizeSubject :: "string \<Rightarrow> string" where
  "categorizeSubject subject =
     (let subjectLower = toLowerCase subject
      in case List.find (\<lambda>(category, keywords).
                list_ex (\<lambda>keyword. str_includes subjectLower keyword) keywords) categories of
           Some (category, keywords) \<Rightarrow> category
         | None \<Rightarrow> ''Other'')"

text \<open>A value inside a template literal.\<close>

fun template_val :: "jsval \<Rightarrow> string" where
  "template_val (Str s) = s"
| "template_val (RecIds ids) = []"
| "template_val Null = ''null''"
| "template_val (Inherited key) =
     (if key = ''__proto__'' then ''[object Object]''
      else ''function '' @ (if key = ''constructor'' then ''Object'' else key)
           @ ''() { [native code] }'')"

text \<open>
  The body of the \<open>try\<close> inside \<open>for (const subject of subjects)\<close>. The field set
  is kept as the code builds it; what the store client serialises of an inherited
  function is not modelled.
\<close>

definition syncSubject :: "world \<Rightarrow> string \<Rightarrow> (exn + nat) \<times> world" where
  "syncSubject w subject =
     (let formattedName = formatSubjectName subject;
          recordData = [''Subject Name'' \<mapsto> formattedName,
                        ''Category'' \<mapsto> Str (categorizeSubject subject)]
      in findOrCreateRecord w ''Subjects'' ''Subject Name'' (template_val formattedName) recordData)"

fun syncSubjects_loop :: "world \<Rightarrow> string list \<Rightarrow> nat list \<Rightarrow> nat list \<times> world" where
  "syncSubjects_loop w [] subjectIds = (subjectIds, w)"
| "syncSubjects_loop w (subject # rest) subjectIds =
     (case syncSubject w subject of
        (Inr recordId, w1) \<Rightarrow> syncSubjects_loop w1 rest (subjectIds @ [recordId])
      | (Inl error, w1) \<Rightarrow> syncSubjects_loop w1 rest subjectIds)"

definition syncSubjects :: "world \<Rightarrow> string list \<Rightarrow> nat list \<times> world" where
  "syncSubjects w subjects = syncSubjects_loop w subjects []"

subsection \<open>States\<close>

text \<open>The pattern \<open>/\/state:([a-z]{2})\//i\<close>, searched from every position in turn.\<close>

definition state_pattern :: "pat list" where
  "state_pattern =
     [Lit (CHR ''/''), AnyCase (CHR ''s''), AnyCase (CHR ''t''), AnyCase (CHR ''a''),
      AnyCase (CHR ''t''), AnyCase (CHR ''e''), Lit (CHR '':''), Letter, Letter, Lit (CHR ''/'')]"

fun find_state_match :: "string \<Rightarrow> string option" where
  "find_state_match [] = None"
| "find_state_match (c # cs) =
     (if match_pat state_pattern (c # cs) then Some (take 2 (drop 7 (c # cs)))
      else find_state_match cs)"

definition state_abbr :: "jurisdiction \<Rightarrow> string option" where
  "state_abbr j =
     (if truthy (jurisdiction_id j)
      then map_option toUpperCase (find_state_match (or_empty (jurisdiction_id j)))
      else None)"

definition stateRecordData :: "jurisdiction \<Rightarrow> fields" where
  "stateRecordData j =
     (let recordData = [''State Name'' \<mapsto> Str (or_empty (jurisdiction_name j))];
          recordData = set_optional ''Abbreviation'' (state_abbr j) recordData;
          recordData = set_optional ''Legislature Type'' (legislature_name j) recordData;
          recordData =
            (case legislative_sessions j of
               [] \<Rightarrow> recordData
             | session # _ \<Rightarrow> recordData(''Session Info'' \<mapsto> Str session))
      in recordData)"

text \<open>The search value \<open>abbr || jurisdiction.name\<close> as the query prints it.\<close>

definition state_key :: "jurisdiction \<Rightarrow> string" where
  "state_key j =
     (if truthy (state_abbr j) then or_empty (state_abbr j)
      else template_of (jurisdiction_name j))"

text \<open>\<open>syncState\<close> returns the record id, or \<open>null\<close> when the reconciliation throws.\<close>

definition syncState :: "world \<Rightarrow> jurisdiction \<Rightarrow> nat option \<times> world" where
  "syncState w j =
     (case findOrCreateRecord w ''States'' ''Abbreviation'' (state_key j) (stateRecordData j) of
        (Inr recordId, w1) \<Rightarrow> (Some recordId, w1)
      | (Inl error, w1) \<Rightarrow> (None, w1))"

subsection \<open>Bills\<close>

text \<open>The ASCII characters of the class \<open>\s\<close>.\<close>

definition is_space :: "char \<Rightarrow> bool" where
  "is_space c = (c \<in> set [CHR '' '', CHR 0x09, CHR 0x0A, CHR 0x0B, CHR 0x0C, CHR 0x0D])"

fun jsval_of_date :: "string option \<Rightarrow> jsval" where
  "jsval_of_date None = Null"
| "jsval_of_date (Some d) = Str d"

text \<open>
  The field set of a bill, given the two normalized dates and the ids that the sponsor
  and subject syncs returned. The ids come from the store and are never \<open>null\<close>, so the
  filter \<open>id != null\<close> keeps all of them.
\<close>

definition billFields ::
  "string \<Rightarrow> bill \<Rightarrow> string option \<Rightarrow> string option \<Rightarrow> nat list \<Rightarrow> nat list \<Rightarrow> fields" where
  "billFields state b latest introduced sponsorIds subjectIds =
     (let recordData =
            [''Bill ID'' \<mapsto> Str (or_empty (bill_identifier b)),
             ''Title'' \<mapsto> Str (or_empty (bill_title b)),
             ''Summary'' \<mapsto> Str (case abstracts b of [] \<Rightarrow> [] | a # _ \<Rightarrow> or_empty a),
             ''OpenStates ID'' \<mapsto> Str (or_empty (bill_id b)),
             ''Source URL'' \<mapsto> Str (or_empty (openstates_url b)),
             ''Latest Action'' \<mapsto> Str (or_empty (latest_action_description b))];
          recordData =
            (if truthy (bill_identifier b)
             then recordData(''Slug'' \<mapsto>
                    Str (filter (\<lambda>c. \<not> is_space c) (or_empty (bill_identifier b))))
             else recordData);
          recordData =
            (case classification b of
               [] \<Rightarrow> recordData
             | c # _ \<Rightarrow> set_optional ''Classification'' (Some c) recordData);
          recordData = recordData(''State'' \<mapsto> Str (toUpperCase state));
          recordData = set_optional ''Current Status'' (Some (determineStatus b)) recordData;
          recordData =
            (if truthy (latest_action_date b)
             then recordData(''Latest Action Date'' \<mapsto> jsval_of_date latest)
             else recordData);
          recordData =
            (if truthy (first_action_date b)
             then recordData(''Introduction Date'' \<mapsto> jsval_of_date introduced)
             else recordData);
          recordData = set_optional ''Chamber'' (from_organization_classification b) recordData;
          recordData =
            (if sponsorIds \<noteq> []
             then recordData(''Sponsors'' \<mapsto> RecIds (take 10 sponsorIds))
             else recordData);
          recordData =
            (if subjectIds \<noteq> []
             then recordData(''Subject Areas'' \<mapsto> RecIds (take 10 subjectIds))
             else recordData)
      in recordData)"

text \<open>
  \<open>recordData\<close> with the calls of \<open>normalizeDate\<close>; the function is pure, so it is
  called here whether or not the date is present, and \<open>billFields\<close> uses the result
  only for a date that is.
\<close>

definition billRecordData ::
  "date_parser \<Rightarrow> string \<Rightarrow> bill \<Rightarrow> nat list \<Rightarrow> nat list \<Rightarrow> exn + fields" where
  "billRecordData parse state b sponsorIds subjectIds =
     (case normalizeDate parse (latest_action_date b) of
        Inl e \<Rightarrow> Inl e
      | Inr latest \<Rightarrow>
          (case normalizeDate parse (first_action_date b) of
             Inl e \<Rightarrow> Inl e
           | Inr introduced \<Rightarrow>
               Inr (billFields state b latest introduced sponsorIds subjectIds)))"

text \<open>\<open>bill.sponsorships.map(s => s.person).filter(Boolean)\<close>\<close>

definition sponsors_of :: "bill \<Rightarrow> person list" where
  "sponsors_of b = List.map_filter (\<lambda>x. x) (sponsorships b)"

text \<open>The body of the \<open>try\<close> inside \<open>for (const bill of bills)\<close>.\<close>

definition syncBill :: "env \<Rightarrow> world \<Rightarrow> string \<Rightarrow> bill \<Rightarrow> (exn + nat) \<times> world" where
  "syncBill env w state b =
     (case (if sponsorships b \<noteq> [] then syncLegislators env w (sponsors_of b) else ([], w)) of
        (sponsorIds, w1) \<Rightarrow>
          (case (if bill_subject b \<noteq> [] then syncSubjects w1 (bill_subject b) else ([], w1)) of
             (subjectIds, w2) \<Rightarrow>
               (case billRecordData (date_parse env) state b sponsorIds subjectIds of
                  Inl e \<Rightarrow> (Inl e, w2)
                | Inr recordData \<Rightarrow>
                    findOrCreateRecord w2 ''Bills'' ''OpenStates ID''
                      (template_of (bill_id b)) recordData)))"

fun syncBills_loop :: "env \<Rightarrow> world \<Rightarrow> string \<Rightarrow> bill list \<Rightarrow> nat \<Rightarrow> nat \<times> world" where
  "syncBills_loop env w state [] syncedCount = (syncedCount, w)"
| "syncBills_loop env w state (b # rest) syncedCount =
     (case syncBill env w state b of
        (Inr recordId, w1) \<Rightarrow> syncBills_loop env w1 state rest (syncedCount + 1)
      | (Inl error, w1) \<Rightarrow> syncBills_loop env w1 state rest syncedCount)"

text \<open>
  \<open>syncBills\<close> returns \<open>(synced, total)\<close> for \<open>{success: true, synced, total}\<close>; only a
  failure of the bills request is rethrown.
\<close>

definition syncBills :: "env \<Rightarrow> world \<Rightarrow> string \<Rightarrow> nat \<Rightarrow> (exn + nat \<times> nat) \<times> world" where
  "syncBills env w state limit =
     (case fetchBills env w (toLowerCase state) limit of
        (Inl error, w1) \<Rightarrow> (Inl error, w1)
      | (Inr bills, w1) \<Rightarrow>
          (case syncBills_loop env w1 state bills 0 of
             (syncedCount, w2) \<Rightarrow> (Inr (syncedCount, length bills), w2)))"

section \<open>The manual sync endpoint\<close>

record request_body =
  body_state :: "string option"
  body_states :: "string list option"
  body_limit :: "nat option"

record request =
  req_method :: string
  req_authorization :: "string option"
  req_body :: "request_body option"

datatype result_entry =
    StateSynced string nat nat
  | StateFailed string string

datatype response_body =
    ErrorBody string
  | SyncSummary bool string nat nat nat "result_entry list"
  | FailureBody bool string

record response =
  status :: nat
  body :: response_body

text \<open>The body of the \<open>try\<close> inside \<open>for (const currentState of statesToSync)\<close>.\<close>

definition syncOneState :: "env \<Rightarrow> world \<Rightarrow> string \<Rightarrow> nat \<Rightarrow> (exn + nat \<times> nat) \<times> world" where
  "syncOneState env w currentState limit =
     (case fetchJurisdiction env w currentState of
        (Inl e, w1) \<Rightarrow> (Inl e, w1)
      | (Inr jurisdictionData, w1) \<Rightarrow>
          (case syncState w1 jurisdictionData of
             (ignored, w2) \<Rightarrow> syncBills env w2 currentState limit))"

fun syncStates_loop ::
  "env \<Rightarrow> world \<Rightarrow> nat \<Rightarrow> string list \<Rightarrow> result_entry list \<times> nat \<times> nat
     \<Rightarrow> (result_entry list \<times> nat \<times> nat) \<times> world" where
  "syncStates_loop env w limit [] acc = (acc, w)"
| "syncStates_loop env w limit (currentState # rest) (results, totalSynced, totalBills) =
     (case syncOneState env w currentState limit of
        (Inr (synced, n), w1) \<Rightarrow>
          syncStates_loop env w1 limit rest
            (results @ [StateSynced currentState synced n],
             totalSynced + synced, totalBills + n)
      | (Inl stateError, w1) \<Rightarrow>
          syncStates_loop env w1 limit rest
            (results @ [StateFailed currentState (message stateError)],
             totalSynced, totalBills))"

text \<open>\<open>limit || 50\<close>\<close>

definition limit_or_default :: "nat option \<Rightarrow> nat" where
  "limit_or_default limit = (case limit of None \<Rightarrow> 50 | Some n \<Rightarrow> if n = 0 then 50 else n)"

text \<open>
  The handler. A request without a body makes the destructuring of \<open>req.body\<close> throw
  inside the outer \<open>try\<close>, which answers 500; the message of that error is the
  runtime's and stands here as a fixed text.
\<close>

definition handler :: "env \<Rightarrow> world \<Rightarrow> request \<Rightarrow> response \<times> world" where
  "handler env w req =
     (if req_method req \<noteq> ''POST''
      then (\<lparr>status = 405, body = ErrorBody ''Method not allowed''\<rparr>, w)
      else if req_authorization req \<noteq> Some (''Bearer '' @ template_of (webhook_secret env))
      then (\<lparr>status = 401, body = ErrorBody ''Unauthorized''\<rparr>, w)
      else
        (case req_body req of
           None \<Rightarrow>
             (\<lparr>status = 500,
               body = FailureBody False ''Cannot destructure property of req.body''\<rparr>, w)
         | Some b \<Rightarrow>
             (case (case body_states b of
                      Some states \<Rightarrow> Some states
                    | None \<Rightarrow> if truthy (body_state b) then Some [or_empty (body_state b)]
                               else None) of
                None \<Rightarrow>
                  (\<lparr>status = 400, body = ErrorBody ''State or states parameter is required''\<rparr>, w)
              | Some statesToSync \<Rightarrow>
                  (case syncStates_loop env w (limit_or_default (body_limit b)) statesToSync
                          ([], 0, 0) of
                     ((results, totalSynced, totalBills), w1) \<Rightarrow>
                       (\<lparr>status = 200,
                         body = SyncSummary True
                           (''Synced '' @ show_nat totalSynced @ '' of '' @ show_nat totalBills
                            @ '' bills across '' @ show_nat (length statesToSync) @ '' state(s)'')
                           (length statesToSync) totalSynced totalBills results\<rparr>, w1)))))"

section \<open>Example inputs\<close>

text \<open>A bill that carries nothing but a latest-action description.\<close>

definition bill_with_action :: "string option \<Rightarrow> bill" where
  "bill_with_action d =
     \<lparr>bill_id = None, bill_identifier = None, bill_title = None, abstracts = [],
      openstates_url = None, latest_action_description = d, latest_action_date = None,
      first_action_date = None, classification = [], from_organization_classification = None,
      sponsorships = [], bill_subject = []\<rparr>"

text \<open>
  A person stub without any attribute, and one whose role has the district number 0.
\<close>

definition blank_person :: person where
  "blank_person =
     \<lparr>person_id = None, person_name = None, given_name = None, family_name = None,
      image = None, biography = None, email = None, party = None, current_role = None,
      person_jurisdiction_name = None, offices = [], link_urls = []\<rparr>"

definition district_zero_person :: person where
  "district_zero_person =
     blank_person\<lparr>current_role :=
       Some \<lparr>role_district = Some (DistrictNumber 0), role_org_classification = None,
             role_title = None\<rparr>\<rparr>"

text \<open>An empty store that never fails, and an upstream API that is out of reach.\<close>

definition empty_world :: world where
  "empty_world = \<lparr>tables = (\<lambda>t. []), store_faults = [], api_calls = []\<rparr>"

definition offline_env :: env where
  "offline_env =
     \<lparr>bills_api = (\<lambda>jur per_page. Inl (Error ''offline'')),
      people_api = (\<lambda>ids. Inl (Error ''offline'')),
      jurisdictions_api = (\<lambda>st. Inl (Error ''offline'')),
      date_parse = rejecting_parser,
      webhook_secret = Some ''secret''\<rparr>"

text \<open>
  Two jurisdictions as the upstream API describes them: a state, and a territory, whose
  identifier has no \<open>state:\<close> part.
\<close>

definition nc_jurisdiction :: jurisdiction where
  "nc_jurisdiction =
     \<lparr>jurisdiction_id = Some ''ocd-jurisdiction/country:us/state:nc/government'',
      jurisdiction_name = Some ''North Carolina'', legislature_name = None,
      legislative_sessions = []\<rparr>"

definition pr_jurisdiction :: jurisdiction where
  "pr_jurisdiction =
     \<lparr>jurisdiction_id = Some ''ocd-jurisdiction/country:us/territory:pr/government'',
      jurisdiction_name = Some ''Puerto Rico'', legislature_name = None,
      legislative_sessions = []\<rparr>"

text \<open>An upstream API that knows one jurisdiction and has no bills and no people.\<close>

definition quiet_env :: env where
  "quiet_env =
     \<lparr>bills_api = (\<lambda>jur per_page. Inr []),
      people_api = (\<lambda>ids. Inr []),
      jurisdictions_api = (\<lambda>st. Inr nc_jurisdiction),
      date_parse = rejecting_parser,
      webhook_secret = Some ''secret''\<rparr>"

text \<open>An empty store whose next request fails.\<close>

definition failing_store_world :: world where
  "failing_store_world = \<lparr>tables = (\<lambda>t. []), store_faults = [Some ''store down''], api_calls = []\<rparr>"

text \<open>
  A bill that carries an id and nothing else, an upstream API that answers every bills
  request with a given list, and a store that holds one bill record.
\<close>

definition identified_bill :: "string \<Rightarrow> bill" where
  "identified_bill i = (bill_with_action None)\<lparr>bill_id := Some i\<rparr>"

definition env_with_bills :: "bill list \<Rightarrow> env" where
  "env_with_bills bs = quiet_env\<lparr>bills_api := (\<lambda>jur per_page. Inr bs)\<rparr>"

definition one_bill_world :: world where
  "one_bill_world =
     \<lparr>tables = (\<lambda>t. if t = ''Bills'' then [[''OpenStates ID'' \<mapsto> Str ''b1'']] else []),
      store_faults = [], api_calls = []\<rparr>"

text \<open>
  Person stubs that carry an id and a name (one stub for each letter of a string), and
  a bill with an id and a list of sponsors.
\<close>

definition stub :: "string \<Rightarrow> person" where
  "stub i = blank_person\<lparr>person_id := Some i, person_name := Some i\<rparr>"

definition stubs :: "string \<Rightarrow> person list" where
  "stubs letters = map (\<lambda>c. stub [c]) letters"

definition bill_with_sponsors :: "person list \<Rightarrow> bill" where
  "bill_with_sponsors ps = (identified_bill ''b1'')\<lparr>sponsorships := map Some ps\<rparr>"





section \<open>Vocabulary of the statements about the store\<close>

text \<open>
  The column of a key field: the value that each record of a table holds in the field,
  in table order. Reconciling by a key adds the key to the column unless it is there.
\<close>

definition key_column :: "string \<Rightarrow> fields list \<Rightarrow> jsval option list" where
  "key_column f rows = map (\<lambda>r. r f) rows"

definition add_key :: "'a \<Rightarrow> 'a list \<Rightarrow> 'a list" where
  "add_key k col = (if k \<in> set col then col else col @ [k])"

text \<open>The key under which a bill is stored: the text of \<open>bill.id\<close>, empty when the id is missing.\<close>

definition bill_key :: "bill \<Rightarrow> jsval option" where
  "bill_key b = Some (Str (or_empty (bill_id b)))"

section \<open>Vocabulary of the statements about the endpoint\<close>

fun entry_state :: "result_entry \<Rightarrow> string" where
  "entry_state (StateSynced st synced n) = st"
| "entry_state (StateFailed st msg) = st"

text \<open>The request carries the bearer secret that is configured.\<close>

definition authorized :: "env \<Rightarrow> request \<Rightarrow> bool" where
  "authorized env req =
     (req_authorization req = Some (''Bearer '' @ template_of (webhook_secret env)))"

text \<open>The body holds a \<open>states\<close> array or a non-empty \<open>state\<close>.\<close>

definition carries_states :: "request_body \<Rightarrow> bool" where
  "carries_states b = (body_states b \<noteq> None \<or> truthy (body_state b))"

definition statesToSync_of :: "request_body \<Rightarrow> string list" where
  "statesToSync_of b =
     (case body_states b of Some states \<Rightarrow> states | None \<Rightarrow> [or_empty (body_state b)])"

section \<open>Results\<close>

subsection \<open>Status inference\<close>

lemma startsWith_map: "startsWith s p \<Longrightarrow> startsWith (map f s) (map f p)"
  by (induction s p rule: startsWith.induct) auto

lemma str_includes_map: "str_includes s p \<Longrightarrow> str_includes (map f s) (map f p)"
proof (induction s)
  case Nil
  then show ?case by simp
next
  case (Cons c cs)
  then show ?case
    using startsWith_map [of "c # cs" p f] by auto
qed

lemma str_includes_lower:
  assumes "str_includes s p" and "toLowerCase p = p"
  shows "str_includes (toLowerCase s) p"
  using str_includes_map [OF assms(1), of lower_char] assms(2)
  by (simp add: toLowerCase_def)

lemmas char_class_defs =
  toLowerCase_def toUpperCase_def lower_char_def upper_char_def
  upper_letters_def lower_letters_def is_upper_def is_lower_def is_digit_def is_letter_def

lemma determineStatus_rules: "determineStatus b = status_by_rules (latest_action_description b)"
proof (cases "truthy (latest_action_description b)")
  case True
  then show ?thesis
    by (simp add: determineStatus_def status_by_rules_def status_rules_def rule_matches_def Let_def)
next
  case False
  then have "or_empty (latest_action_description b) = []"
    by (cases "latest_action_description b") auto
  with False show ?thesis
    by (simp add: determineStatus_def status_by_rules_def status_rules_def rule_matches_def
        toLowerCase_def)
qed

lemma determineStatus_range: "determineStatus b \<in> set status_values"
  by (simp add: determineStatus_def status_values_def Let_def)

lemma determineStatus_signed:
  assumes "latest_action_description b = Some d" and "str_includes d ''signed''"
  shows "determineStatus b = ''Enacted''"
proof -
  have "str_includes (toLowerCase d) ''signed''"
    by (rule str_includes_lower [OF assms(2)]) (simp add: char_class_defs)
  moreover have "d \<noteq> []"
    using assms(2) by auto
  ultimately show ?thesis
    using assms(1) by (simp add: determineStatus_def)
qed

text \<open>
  C2. For every bill the inferred status is one of the seven status values, and it is
  the status of the first rule, in the fixed order signed/enacted, vetoed, failed/died,
  passed+senate, passed+house, committee, that matches the lower-cased latest-action
  description, \<open>Introduced\<close> when none does. A description that contains both
  \<open>signed\<close> and \<open>committee\<close> gives \<open>Enacted\<close>; a missing or empty description gives
  \<open>Introduced\<close>.
\<close>

theorem determineStatus_first_matching_rule:
  "determineStatus b \<in> set status_values
   \<and> determineStatus b = status_by_rules (latest_action_description b)
   \<and> (\<forall>d. latest_action_description b = Some d \<and> str_includes d ''signed''
          \<and> str_includes d ''committee'' \<longrightarrow> determineStatus b = ''Enacted'')
   \<and> (latest_action_description b = None \<or> latest_action_description b = Some []
        \<longrightarrow> determineStatus b = ''Introduced'')"
proof -
  have "latest_action_description b = None \<or> latest_action_description b = Some []
        \<longrightarrow> determineStatus b = ''Introduced''"
    by (auto simp: determineStatus_def)
  then show ?thesis
    using determineStatus_range [of b] determineStatus_rules [of b]
      determineStatus_signed [of b]
    by blast
qed

text \<open>Witness of C2: a signed bill that mentions a committee, and a bill without action.\<close>

theorem determineStatus_first_matching_rule_witness:
  "str_includes ''signed by governor after committee report'' ''signed''
   \<and> str_includes ''signed by governor after committee report'' ''committee''
   \<and> determineStatus (bill_with_action (Some ''signed by governor after committee report''))
       = ''Enacted''
   \<and> determineStatus (bill_with_action None) = ''Introduced''
   \<and> determineStatus (bill_with_action (Some [])) = ''Introduced''"
proof -
  let ?d = "''signed by governor after committee report''"
  have h: "str_includes ?d ''signed''" "str_includes ?d ''committee''"
    by simp_all
  have d: "latest_action_description (bill_with_action (Some ?d)) = Some ?d"
    "latest_action_description (bill_with_action None) = None"
    "latest_action_description (bill_with_action (Some [])) = Some []"
    by (simp_all add: bill_with_action_def)
  have "determineStatus (bill_with_action (Some ?d)) = ''Enacted''"
    using determineStatus_first_matching_rule [of "bill_with_action (Some ?d)"] d(1) h
    by blast
  moreover have "determineStatus (bill_with_action None) = ''Introduced''"
    using determineStatus_first_matching_rule [of "bill_with_action None"] d(2)
    by blast
  moreover have "determineStatus (bill_with_action (Some [])) = ''Introduced''"
    using determineStatus_first_matching_rule [of "bill_with_action (Some [])"] d(3)
    by blast
  ultimately show ?thesis
    using h by blast
qed

subsection \<open>Date normalization\<close>

lemma match_pat_length: "match_pat ps s \<Longrightarrow> length ps \<le> length s"
  by (induction ps s rule: match_pat.induct) auto

lemma normalizeDate_prefix:
  assumes "match_pat date_pattern s"
  shows "normalizeDate parse (Some s) = Inr (Some (take 10 s)) \<and> length (take 10 s) = 10"
proof -
  have len: "10 \<le> length s"
    using match_pat_length [OF assms] by (simp add: date_pattern_def)
  then have "s \<noteq> []" by auto
  with assms have "normalizeDate parse (Some s) = Inr (Some (take 10 s))"
    by (simp add: normalizeDate_def normalizeDate_try_def date_prefix_def)
  with len show ?thesis by simp
qed

lemma normalizeDate_returns: "\<exists>r. normalizeDate parse d = Inr r"
  by (simp add: normalizeDate_def split: sum.splits)

lemma normalizeDate_unparsed:
  assumes "s \<noteq> []" and "\<not> match_pat date_pattern s" and "parse s = Inr None"
  shows "normalizeDate parse (Some s) = Inr (Some s)"
  using assms by (simp add: normalizeDate_def normalizeDate_try_def date_prefix_def)

text \<open>
  C4, as the claim states it, fails at the empty string: it matches no calendar-date
  prefix and no date parser accepts it, yet the result is \<open>null\<close> and not the string.
\<close>

theorem normalizeDate_empty_counterexample:
  "\<not> match_pat date_pattern [] \<and> rejecting_parser [] = Inr None
   \<and> normalizeDate rejecting_parser (Some []) = Inr None
   \<and> normalizeDate rejecting_parser (Some []) \<noteq> Inr (Some [])"
  by (simp add: normalizeDate_def rejecting_parser_def date_pattern_def)

text \<open>
  C4, amended. Date normalization never throws. A string that begins with four digits,
  a dash, two digits, a dash and two digits gives exactly that prefix of 10 characters
  (so the two examples of the specification hold); \<open>null\<close> and the empty string give
  \<open>null\<close>; a non-empty string that has no such prefix and that the date parser rejects
  is returned unchanged.
\<close>

theorem normalizeDate_best_effort:
  "(\<exists>r. normalizeDate parse d = Inr r)
   \<and> (match_pat date_pattern s \<longrightarrow>
        normalizeDate parse (Some s) = Inr (Some (take 10 s)) \<and> length (take 10 s) = 10)
   \<and> normalizeDate parse (Some ''2025-02-19T05:00:00+00:00'') = Inr (Some ''2025-02-19'')
   \<and> normalizeDate parse (Some ''2020-01-15'') = Inr (Some ''2020-01-15'')
   \<and> normalizeDate parse None = Inr None
   \<and> normalizeDate parse (Some []) = Inr None
   \<and> (u \<noteq> [] \<and> \<not> match_pat date_pattern u \<and> parse u = Inr None \<longrightarrow>
        normalizeDate parse (Some u) = Inr (Some u))"
proof -
  have ex1: "match_pat date_pattern ''2025-02-19T05:00:00+00:00''"
    by (simp add: date_pattern_def is_digit_def)
  have ex2: "match_pat date_pattern ''2020-01-15''"
    by (simp add: date_pattern_def is_digit_def)
  have "normalizeDate parse None = Inr None" "normalizeDate parse (Some []) = Inr None"
    by (simp_all add: normalizeDate_def)
  then show ?thesis
    using normalizeDate_returns [of parse d] normalizeDate_prefix [of s parse]
      normalizeDate_prefix [OF ex1, of parse] normalizeDate_prefix [OF ex2, of parse]
      normalizeDate_unparsed [of u parse]
    by simp
qed

text \<open>Witness of C4: a bare date, and a word that is no date at all.\<close>

theorem normalizeDate_best_effort_witness:
  "match_pat date_pattern ''2024-12-31 23:59''
   \<and> normalizeDate rejecting_parser (Some ''2024-12-31 23:59'') = Inr (Some ''2024-12-31'')
   \<and> ''soon'' \<noteq> [] \<and> \<not> match_pat date_pattern ''soon'' \<and> rejecting_parser ''soon'' = Inr None
   \<and> normalizeDate rejecting_parser (Some ''soon'') = Inr (Some ''soon'')"
  using normalizeDate_best_effort [of rejecting_parser None "''2024-12-31 23:59''" "''soon''"]
  by (simp add: date_pattern_def is_digit_def rejecting_parser_def)

subsection \<open>Subject names\<close>

lemma formatted_label_public_safety: "formatted_label ''PUBLIC_SAFETY'' = ''Public Safety''"
  by (simp add: formatted_label_def titleCaseWord_def char_class_defs)

lemma formatSubjectName_public_safety: "formatSubjectName ''PUBLIC_SAFETY'' = Str ''Public Safety''"
  by (simp add: formatSubjectName_def formatted_label_public_safety commonWords_get_def
      commonWords_def object_prototype_members_def char_class_defs)

lemma formatted_label_lawenforcement: "formatted_label ''Lawenforcement'' = ''Lawenforcement''"
  by (simp add: formatted_label_def char_class_defs)

lemma formatSubjectName_lawenforcement:
  "formatSubjectName ''Lawenforcement'' = Str ''Law Enforcement''"
  by (simp add: formatSubjectName_def formatted_label_lawenforcement commonWords_get_def
      commonWords_def char_class_defs)

text \<open>
  Away from the inherited members of the dictionary object, the result is the override
  when the lower-cased label is a key of the table, and the formatted label otherwise.
\<close>

lemma formatSubjectName_override:
  assumes "toLowerCase (formatted_label subject) \<notin> set object_prototype_members"
  shows "formatSubjectName subject =
           (case map_of commonWords (toLowerCase (formatted_label subject)) of
              Some v \<Rightarrow> Str v
            | None \<Rightarrow> Str (formatted_label subject))"
  using assms by (simp add: formatSubjectName_def commonWords_get_def split: option.splits)

text \<open>
  C3 fails on the code at the label \<open>Constructor\<close>: it is no key of the override
  table, its best-effort casing is \<open>Constructor\<close>, and the function returns the
  \<open>constructor\<close> member that the dictionary object inherits, which is not a string.
\<close>

theorem formatSubjectName_constructor:
  "map_of commonWords (toLowerCase (formatted_label ''Constructor'')) = None
   \<and> formatted_label ''Constructor'' = ''Constructor''
   \<and> formatSubjectName ''Constructor'' = Inherited ''constructor''
   \<and> formatSubjectName ''Constructor'' \<noteq> Str ''Constructor''"
proof -
  have f: "formatted_label ''Constructor'' = ''Constructor''"
    by (simp add: formatted_label_def char_class_defs)
  have l: "toLowerCase ''Constructor'' = ''constructor''"
    by (simp add: char_class_defs)
  have m: "map_of commonWords ''constructor'' = None"
    by (simp add: commonWords_def)
  have "formatSubjectName ''Constructor'' = Inherited ''constructor''"
    by (simp add: formatSubjectName_def f l m commonWords_get_def object_prototype_members_def)
  with f l m show ?thesis by simp
qed

subsection \<open>The record store\<close>

lemma next_fault_none: "store_faults w = [] \<Longrightarrow> next_fault w = (None, w)"
  by (simp add: next_fault_def)

lemma next_fault_frame:
  "tables (snd (next_fault w)) = tables w" "api_calls (snd (next_fault w)) = api_calls w"
  by (simp_all add: next_fault_def split: list.splits)

lemma next_fault_faults:
  "store_faults (snd (next_fault w)) = tl (store_faults w)"
  by (simp add: next_fault_def split: list.splits)

lemma find_record_Some:
  "find_record P rs = Some i \<Longrightarrow> i < length rs \<and> P (rs ! i) \<and> (\<forall>j<i. \<not> P (rs ! j))"
proof (induction rs arbitrary: i)
  case Nil
  then show ?case by simp
next
  case (Cons r rs)
  show ?case
  proof (cases "P r")
    case True
    with Cons.prems show ?thesis by simp
  next
    case False
    with Cons.prems obtain k where k: "find_record P rs = Some k" "i = Suc k"
      by auto
    from Cons.IH [OF k(1)] False k(2) show ?thesis
      by (auto simp: less_Suc_eq_0_disj)
  qed
qed

lemma find_record_None: "find_record P rs = None \<longleftrightarrow> (\<forall>r\<in>set rs. \<not> P r)"
  by (induction rs) auto

lemma find_record_ex: "(\<exists>r\<in>set rs. P r) \<Longrightarrow> \<exists>i. find_record P rs = Some i"
  using find_record_None [of P rs] by (cases "find_record P rs") auto

lemma findOrCreateRecord_found:
  assumes "store_faults w = []" and "find_record (field_is f v) (tables w T) = Some i"
  shows "findOrCreateRecord w T f v rd =
           (Inr i, w\<lparr>tables := (tables w)(T := (tables w T)[i := (tables w T ! i) ++ rd])\<rparr>)"
proof -
  have "i < length (tables w T)"
    using find_record_Some [OF assms(2)] by simp
  then show ?thesis
    using assms
    by (simp add: findOrCreateRecord_def select_first_def update_record_def next_fault_none Let_def)
qed

lemma findOrCreateRecord_new:
  assumes "store_faults w = []" and "find_record (field_is f v) (tables w T) = None"
  shows "findOrCreateRecord w T f v rd =
           (Inr (length (tables w T)), w\<lparr>tables := (tables w)(T := tables w T @ [rd])\<rparr>)"
  using assms
  by (simp add: findOrCreateRecord_def select_first_def create_record_def next_fault_none Let_def)

lemma findOrCreateRecord_api_calls:
  "api_calls (snd (findOrCreateRecord w T f v rd)) = api_calls w"
  by (auto simp: findOrCreateRecord_def select_first_def create_record_def update_record_def
      next_fault_def Let_def split: prod.splits sum.splits list.splits option.splits)

lemma findOrCreateRecord_other_table:
  "T' \<noteq> T \<Longrightarrow> tables (snd (findOrCreateRecord w T f v rd)) T' = tables w T'"
  by (auto simp: findOrCreateRecord_def select_first_def create_record_def update_record_def
      next_fault_def Let_def split: prod.splits sum.splits list.splits option.splits)

lemma findOrCreateRecord_no_faults:
  "store_faults w = [] \<Longrightarrow> store_faults (snd (findOrCreateRecord w T f v rd)) = []"
  by (auto simp: findOrCreateRecord_def select_first_def create_record_def update_record_def
      next_fault_def Let_def split: prod.splits sum.splits list.splits option.splits)


subsection \<open>The field set of a legislator\<close>

lemma set_optional_other: "k \<noteq> key \<Longrightarrow> set_optional key x rd k = rd k"
  by (simp add: set_optional_def)

lemma set_optional_same:
  "set_optional key x rd key = (if truthy x then Some (Str (or_empty x)) else rd key)"
  by (simp add: set_optional_def)

text \<open>
  C7, amended. The field set that the legislator sync passes to the reconciler is the
  one built from the person's full data (or from the stub). In it every mapped field
  other than \<open>Full Name\<close> and \<open>OpenStates ID\<close> is left out when the upstream
  attribute is absent or empty; \<open>Full Name\<close> and \<open>OpenStates ID\<close> are always
  written, as the empty string when the attribute is absent.
\<close>

theorem legislatorRecordData_sparse:
  "syncLegislator w peopleMap q =
     findOrCreateRecord w ''Legislators'' ''OpenStates ID''
       (template_of (person_id (fullPersonData_of peopleMap q)))
       (legislatorRecordData (fullPersonData_of peopleMap q))
   \<and> (\<not> truthy (given_name p) \<longrightarrow> legislatorRecordData p ''First Name'' = None)
   \<and> (\<not> truthy (family_name p) \<longrightarrow> legislatorRecordData p ''Last Name'' = None)
   \<and> (Option.bind (current_role p) role_district = None \<longrightarrow> legislatorRecordData p ''District'' = None)
   \<and> (\<forall>d. Option.bind (current_role p) role_district = Some d \<and> \<not> district_truthy d \<longrightarrow>
         legislatorRecordData p ''District'' = None)
   \<and> (\<not> truthy (image p) \<longrightarrow> legislatorRecordData p ''Photo URL'' = None)
   \<and> (\<not> truthy (biography p) \<longrightarrow> legislatorRecordData p ''Biography'' = None)
   \<and> (\<not> truthy (email p) \<longrightarrow> legislatorRecordData p ''Contact Email'' = None)
   \<and> (\<not> truthy (party p) \<longrightarrow> legislatorRecordData p ''Party'' = None)
   \<and> (\<not> truthy (Option.bind (current_role p) role_org_classification) \<longrightarrow>
         legislatorRecordData p ''Chamber'' = None)
   \<and> (\<not> truthy (person_jurisdiction_name p) \<longrightarrow> legislatorRecordData p ''State'' = None)
   \<and> (\<not> truthy (Option.bind (current_role p) role_title) \<longrightarrow>
         legislatorRecordData p ''Title'' = None)
   \<and> (offices p = [] \<or> \<not> truthy (office_voice (hd (offices p))) \<longrightarrow>
         legislatorRecordData p ''Phone'' = None)
   \<and> (offices p = [] \<or> \<not> truthy (office_address (hd (offices p))) \<longrightarrow>
         legislatorRecordData p ''Office Address'' = None)
   \<and> (filter truthy (link_urls p) = [] \<longrightarrow> legislatorRecordData p ''Links'' = None)
   \<and> legislatorRecordData p ''Full Name'' = Some (Str (or_empty (person_name p)))
   \<and> legislatorRecordData p ''OpenStates ID'' = Some (Str (or_empty (person_id p)))"
  by (simp add: syncLegislator_def legislatorRecordData_def Let_def set_optional_other
      set_optional_same extractOfficeInfo_def split: list.splits)

text \<open>
  Witness of C7: the stub without attributes gets the two fixed fields only, and the
  district number 0 gives no \<open>District\<close> field.
\<close>

theorem legislatorRecordData_sparse_witness:
  "\<not> truthy (given_name blank_person) \<and> \<not> truthy (family_name blank_person)
   \<and> Option.bind (current_role blank_person) role_district = None
   \<and> \<not> truthy (image blank_person) \<and> \<not> truthy (biography blank_person)
   \<and> \<not> truthy (email blank_person) \<and> \<not> truthy (party blank_person)
   \<and> \<not> truthy (Option.bind (current_role blank_person) role_org_classification)
   \<and> \<not> truthy (person_jurisdiction_name blank_person)
   \<and> \<not> truthy (Option.bind (current_role blank_person) role_title)
   \<and> offices blank_person = [] \<and> filter truthy (link_urls blank_person) = []
   \<and> legislatorRecordData blank_person ''First Name'' = None
   \<and> legislatorRecordData blank_person ''Last Name'' = None
   \<and> legislatorRecordData blank_person ''District'' = None
   \<and> legislatorRecordData blank_person ''Photo URL'' = None
   \<and> legislatorRecordData blank_person ''Biography'' = None
   \<and> legislatorRecordData blank_person ''Contact Email'' = None
   \<and> legislatorRecordData blank_person ''Party'' = None
   \<and> legislatorRecordData blank_person ''Chamber'' = None
   \<and> legislatorRecordData blank_person ''State'' = None
   \<and> legislatorRecordData blank_person ''Title'' = None
   \<and> legislatorRecordData blank_person ''Phone'' = None
   \<and> legislatorRecordData blank_person ''Office Address'' = None
   \<and> legislatorRecordData blank_person ''Links'' = None
   \<and> Option.bind (current_role district_zero_person) role_district = Some (DistrictNumber 0)
   \<and> \<not> district_truthy (DistrictNumber 0)
   \<and> legislatorRecordData district_zero_person ''District'' = None"
proof -
  have h: "\<not> truthy (given_name blank_person)" "\<not> truthy (family_name blank_person)"
    "Option.bind (current_role blank_person) role_district = None"
    "\<not> truthy (image blank_person)" "\<not> truthy (biography blank_person)"
    "\<not> truthy (email blank_person)" "\<not> truthy (party blank_person)"
    "\<not> truthy (Option.bind (current_role blank_person) role_org_classification)"
    "\<not> truthy (person_jurisdiction_name blank_person)"
    "\<not> truthy (Option.bind (current_role blank_person) role_title)"
    "offices blank_person = []" "filter truthy (link_urls blank_person) = []"
    by (simp_all add: blank_person_def)
  have z: "Option.bind (current_role district_zero_person) role_district = Some (DistrictNumber 0)"
    "\<not> district_truthy (DistrictNumber 0)"
    by (simp_all add: district_zero_person_def)
  have "legislatorRecordData district_zero_person ''District'' = None"
    using legislatorRecordData_sparse [of empty_world Map.empty blank_person district_zero_person] z
    by blast
  then show ?thesis
    using legislatorRecordData_sparse [of empty_world Map.empty blank_person blank_person] h z
    by blast
qed

text \<open>
  C7, as the claim states it, fails for the two fixed fields: a stub without name and
  without id gets \<open>Full Name\<close> and \<open>OpenStates ID\<close> written as empty strings.
\<close>

theorem legislatorRecordData_name_counterexample:
  "person_name blank_person = None
   \<and> legislatorRecordData blank_person ''Full Name'' = Some (Str [])
   \<and> person_id blank_person = None
   \<and> legislatorRecordData blank_person ''OpenStates ID'' = Some (Str [])"
  by (simp add: legislatorRecordData_def Let_def set_optional_other set_optional_same
      extractOfficeInfo_def blank_person_def)

subsection \<open>The manual sync endpoint\<close>

lemma syncStates_loop_results:
  "map entry_state (fst (fst (syncStates_loop env w limit sts (results, a, b))))
     = map entry_state results @ sts"
proof (induction sts arbitrary: w results a b)
  case Nil
  then show ?case by simp
next
  case (Cons st sts)
  show ?case
  proof (cases "syncOneState env w st limit")
    case (Pair r w1)
    then show ?thesis
    proof (cases r)
      case (Inl e)
      with Pair Cons.IH [of w1 "results @ [StateFailed st (message e)]" a b]
      show ?thesis by simp
    next
      case (Inr sn)
      obtain synced n where "sn = (synced, n)" by (cases sn)
      with Inr Pair Cons.IH [of w1 "results @ [StateSynced st synced n]" "a + synced" "b + n"]
      show ?thesis by simp
    qed
  qed
qed

lemma handler_ok:
  assumes "req_method req = ''POST''" and "authorized env req" and "req_body req = Some b"
    and "carries_states b"
  shows "\<exists>msg ts tb results.
           fst (handler env w req) =
             \<lparr>status = 200, body = SyncSummary True msg (length (statesToSync_of b)) ts tb results\<rparr>
           \<and> map entry_state results = statesToSync_of b"
proof -
  let ?sts = "statesToSync_of b"
  obtain results ts tb w1 where
    l: "syncStates_loop env w (limit_or_default (body_limit b)) ?sts ([], 0, 0) = ((results, ts, tb), w1)"
    by (metis prod.exhaust)
  have "map entry_state results = ?sts"
    using syncStates_loop_results [of env w "limit_or_default (body_limit b)" ?sts "[]" 0 0] l
    by simp
  moreover have "fst (handler env w req) =
     \<lparr>status = 200, body = SyncSummary True
        (''Synced '' @ show_nat ts @ '' of '' @ show_nat tb
           @ '' bills across '' @ show_nat (length ?sts) @ '' state(s)'')
        (length ?sts) ts tb results\<rparr>"
    using assms l
    by (auto simp: handler_def authorized_def carries_states_def statesToSync_of_def
        split: option.splits)
  ultimately show ?thesis by blast
qed

lemma handler_status:
  "status (fst (handler env w req)) =
     (if req_method req \<noteq> ''POST'' then 405
      else if \<not> authorized env req then 401
      else case req_body req of None \<Rightarrow> 500
           | Some b \<Rightarrow> if carries_states b then 200 else 400)"
  by (auto simp: handler_def authorized_def carries_states_def
      split: option.splits prod.splits)

text \<open>
  C8, as the claim states it, fails for an authenticated POST that has no body: the
  answer is 500, which is none of 200, 400, 401 and 405.
\<close>

theorem handler_no_body_counterexample:
  "req_method \<lparr>req_method = ''POST'', req_authorization = Some ''Bearer secret'',
                req_body = None\<rparr> = ''POST''
   \<and> authorized offline_env
         \<lparr>req_method = ''POST'', req_authorization = Some ''Bearer secret'', req_body = None\<rparr>
   \<and> status (fst (handler offline_env empty_world
         \<lparr>req_method = ''POST'', req_authorization = Some ''Bearer secret'', req_body = None\<rparr>))
       = 500"
  by (simp add: handler_def authorized_def offline_env_def)

text \<open>
  C8, amended. A POST that carries the configured bearer secret and a body with a
  \<open>states\<close> array or a non-empty \<open>state\<close> is answered with status 200, the success
  flag and one result entry per requested state, in order, whatever happens while the
  states are synced. The other answers are 405 for another method, 401 for a POST
  without the right secret, 500 for an authenticated POST without a body, and 400 for an
  authenticated POST whose body has neither a \<open>states\<close> array nor a non-empty \<open>state\<close>.
\<close>

theorem handler_status_codes:
  "(req_method req = ''POST'' \<and> authorized env req \<and> req_body req = Some b \<and> carries_states b
      \<longrightarrow> (\<exists>msg ts tb results.
             fst (handler env w req) =
               \<lparr>status = 200,
                body = SyncSummary True msg (length (statesToSync_of b)) ts tb results\<rparr>
             \<and> map entry_state results = statesToSync_of b))
   \<and> status (fst (handler env w req)) =
       (if req_method req \<noteq> ''POST'' then 405
        else if \<not> authorized env req then 401
        else case req_body req of
               None \<Rightarrow> 500
             | Some b' \<Rightarrow> if carries_states b' then 200 else 400)"
  using handler_ok [of req env b w] handler_status [of env w req]
  by blast

text \<open>Witness of C8: one state is requested while the upstream API is out of reach.\<close>

theorem handler_status_codes_witness:
  "req_method \<lparr>req_method = ''POST'', req_authorization = Some ''Bearer secret'',
       req_body = Some \<lparr>body_state = Some ''ca'', body_states = None, body_limit = None\<rparr>\<rparr>
     = ''POST''
   \<and> authorized offline_env
        \<lparr>req_method = ''POST'', req_authorization = Some ''Bearer secret'',
         req_body = Some \<lparr>body_state = Some ''ca'', body_states = None, body_limit = None\<rparr>\<rparr>
   \<and> carries_states \<lparr>body_state = Some ''ca'', body_states = None, body_limit = None\<rparr>
   \<and> (\<exists>msg ts tb results.
         fst (handler offline_env empty_world
           \<lparr>req_method = ''POST'', req_authorization = Some ''Bearer secret'',
            req_body = Some \<lparr>body_state = Some ''ca'', body_states = None, body_limit = None\<rparr>\<rparr>)
         = \<lparr>status = 200, body = SyncSummary True msg 1 ts tb results\<rparr>
         \<and> map entry_state results = [''ca''])"
proof -
  let ?b = "\<lparr>body_state = Some ''ca'', body_states = None, body_limit = None\<rparr>"
  let ?r = "\<lparr>req_method = ''POST'', req_authorization = Some ''Bearer secret'',
             req_body = Some ?b\<rparr>"
  have h: "req_method ?r = ''POST''" "authorized offline_env ?r" "req_body ?r = Some ?b"
    "carries_states ?b"
    by (simp_all add: authorized_def offline_env_def carries_states_def)
  have s: "statesToSync_of ?b = [''ca'']"
    by (simp add: statesToSync_of_def)
  show ?thesis
    using handler_status_codes [of ?r offline_env ?b empty_world] h s
    by simp
qed

subsection \<open>The jurisdiction record\<close>

lemma nc_abbr: "state_abbr nc_jurisdiction = Some ''NC''"
  by code_simp

lemma pr_abbr: "state_abbr pr_jurisdiction = None"
  by code_simp

lemma pr_key: "state_key pr_jurisdiction = ''Puerto Rico''"
  by (simp add: state_key_def pr_abbr) (simp add: pr_jurisdiction_def)

lemma pr_data: "stateRecordData pr_jurisdiction = [''State Name'' \<mapsto> Str ''Puerto Rico'']"
  by (simp add: stateRecordData_def pr_abbr set_optional_def) (simp add: pr_jurisdiction_def)

lemma pr_first:
  "syncState empty_world pr_jurisdiction =
     (Some 0, empty_world\<lparr>tables := (tables empty_world)(''States'' := [[''State Name'' \<mapsto> Str ''Puerto Rico'']])\<rparr>)"
proof -
  have "find_record (field_is ''Abbreviation'' ''Puerto Rico'') (tables empty_world ''States'') = None"
    by (simp add: empty_world_def)
  then show ?thesis
    using findOrCreateRecord_new [of empty_world "''Abbreviation''" "''Puerto Rico''" "''States''"
        "[''State Name'' \<mapsto> Str ''Puerto Rico'']"]
    by (simp add: syncState_def pr_key pr_data) (simp add: empty_world_def)
qed

lemma pr_second:
  "fst (syncState (snd (syncState empty_world pr_jurisdiction)) pr_jurisdiction) = Some 1
  \<and> length (tables (snd (syncState (snd (syncState empty_world pr_jurisdiction)) pr_jurisdiction)) ''States'') = 2"
proof -
  let ?w = "empty_world\<lparr>tables := (tables empty_world)(''States'' := [[''State Name'' \<mapsto> Str ''Puerto Rico'']])\<rparr>"
  have f: "store_faults ?w = []" by (simp add: empty_world_def)
  have "find_record (field_is ''Abbreviation'' ''Puerto Rico'') (tables ?w ''States'') = None"
    by (simp add: field_is_def)
  from findOrCreateRecord_new [OF f this, of "[''State Name'' \<mapsto> Str ''Puerto Rico'']"]
  have "fst (syncState ?w pr_jurisdiction) = Some 1
    \<and> length (tables (snd (syncState ?w pr_jurisdiction)) ''States'') = 2"
    by (simp add: syncState_def pr_key pr_data)
  then show ?thesis
    by (simp add: pr_first)
qed

text \<open>
  C6 fails on the code for a jurisdiction whose identifier has no \<open>state:\<close> part
  (Puerto Rico, the District of Columbia): the display name is looked up in the field
  \<open>Abbreviation\<close>, which the record written for such a jurisdiction does not have,
  so the second sync finds nothing and creates a second record.
\<close>

theorem syncState_fallback_duplicates:
  "state_abbr pr_jurisdiction = None
   \<and> state_key pr_jurisdiction = ''Puerto Rico''
   \<and> fst (syncState empty_world pr_jurisdiction) = Some 0
   \<and> fst (syncState (snd (syncState empty_world pr_jurisdiction)) pr_jurisdiction) = Some 1
   \<and> length (tables (snd (syncState (snd (syncState empty_world pr_jurisdiction))
         pr_jurisdiction)) ''States'') = 2"
  using pr_abbr pr_key pr_first pr_second by simp

subsection \<open>A failure of the jurisdiction record\<close>











subsection \<open>The key column under reconciliation\<close>

lemma find_record_column:
  "find_record (field_is f v) rows = None \<longleftrightarrow> Some (Str v) \<notin> set (key_column f rows)"
  by (auto simp: find_record_None key_column_def field_is_def image_iff)

lemma findOrCreateRecord_column:
  assumes "store_faults w = []" and "rd f = Some (Str v)"
  shows "key_column f (tables (snd (findOrCreateRecord w T f v rd)) T)
           = add_key (Some (Str v)) (key_column f (tables w T))"
proof (cases "find_record (field_is f v) (tables w T)")
  case None
  then have "Some (Str v) \<notin> set (key_column f (tables w T))"
    by (simp add: find_record_column)
  then show ?thesis
    using findOrCreateRecord_new [OF assms(1) None, of rd] assms(2)
    by (simp add: key_column_def add_key_def)
next
  case (Some i)
  from find_record_Some [OF Some]
  have i: "i < length (tables w T)" and m: "(tables w T ! i) f = Some (Str v)"
    by (simp_all add: field_is_def)
  then have "Some (Str v) \<in> set (key_column f (tables w T))"
    by (auto simp: key_column_def intro!: image_eqI [where x = "tables w T ! i"])
  moreover have "map (\<lambda>r. r f) ((tables w T)[i := (tables w T ! i) ++ rd]) = map (\<lambda>r. r f) (tables w T)"
    using i m assms(2) by (simp add: map_update list_update_same_conv)
  ultimately show ?thesis
    using findOrCreateRecord_found [OF assms(1) Some, of rd]
    by (simp add: key_column_def add_key_def)
qed

lemma findOrCreateRecord_written:
  assumes "findOrCreateRecord w T f v rd = (Inr r, w')"
  shows "r < length (tables w' T) \<and> (\<forall>k x. rd k = Some x \<longrightarrow> (tables w' T ! r) k = Some x)"
  using assms
  by (auto simp: findOrCreateRecord_def select_first_def create_record_def update_record_def
      Let_def nth_append map_add_def
      split: prod.splits sum.splits list.splits option.splits if_splits)

subsection \<open>What the entity syncs leave alone\<close>

lemma fetchPeople_world:
  "tables (snd (fetchPeople env w ids)) = tables w"
  "store_faults (snd (fetchPeople env w ids)) = store_faults w"
  "api_calls (snd (fetchPeople env w ids)) = api_calls w @ [GetPeople ids]"
  by (simp_all add: fetchPeople_def)

lemma fetchChunks_world:
  "tables (snd (fetchChunks env w ids i pm)) = tables w
   \<and> store_faults (snd (fetchChunks env w ids i pm)) = store_faults w"
proof (induction env w ids i pm rule: fetchChunks.induct)
  case (1 env w personIds i peopleMap)
  show ?case
  proof (cases "i < length personIds")
    case False
    then show ?thesis by (simp add: fetchChunks.simps)
  next
    case True
    obtain r w1 where f: "fetchPeople env w (take chunkSize (drop i personIds)) = (r, w1)"
      by (cases "fetchPeople env w (take chunkSize (drop i personIds))")
    have w1: "tables w1 = tables w" "store_faults w1 = store_faults w"
      using fetchPeople_world(1,2) [of env w "take chunkSize (drop i personIds)"] f by simp_all
    from "1.IH" [OF True refl f [symmetric]] True f w1 show ?thesis
      by (simp add: fetchChunks.simps [of env w])
  qed
qed

lemma syncLegislator_frame:
  "(T \<noteq> ''Legislators'' \<longrightarrow> tables (snd (syncLegislator w pm p)) T = tables w T)
   \<and> (store_faults w = [] \<longrightarrow> store_faults (snd (syncLegislator w pm p)) = [])
   \<and> api_calls (snd (syncLegislator w pm p)) = api_calls w"
  by (simp add: syncLegislator_def Let_def findOrCreateRecord_other_table
      findOrCreateRecord_no_faults findOrCreateRecord_api_calls)

lemma syncLegislators_loop_frame:
  "(T \<noteq> ''Legislators'' \<longrightarrow> tables (snd (syncLegislators_loop w pm ps acc)) T = tables w T)
   \<and> (store_faults w = [] \<longrightarrow> store_faults (snd (syncLegislators_loop w pm ps acc)) = [])
   \<and> api_calls (snd (syncLegislators_loop w pm ps acc)) = api_calls w"
proof (induction ps arbitrary: w acc)
  case Nil
  then show ?case by simp
next
  case (Cons p ps)
  obtain r w1 where s: "syncLegislator w pm p = (r, w1)"
    by (cases "syncLegislator w pm p")
  have w1: "T \<noteq> ''Legislators'' \<longrightarrow> tables w1 T = tables w T"
    "store_faults w = [] \<longrightarrow> store_faults w1 = []" "api_calls w1 = api_calls w"
    using syncLegislator_frame [of T w pm p] s by simp_all
  show ?case
  proof (cases r)
    case (Inl e)
    with s w1 Cons.IH [of w1 acc] show ?thesis by simp
  next
    case (Inr i)
    with s w1 Cons.IH [of w1 "acc @ [i]"] show ?thesis by simp
  qed
qed

lemma syncLegislators_frame:
  "(T \<noteq> ''Legislators'' \<longrightarrow> tables (snd (syncLegislators env w people)) T = tables w T)
   \<and> (store_faults w = [] \<longrightarrow> store_faults (snd (syncLegislators env w people)) = [])"
proof -
  obtain pm w1 where f: "fetchChunks env w (personIds_of people) 0 Map.empty = (pm, w1)"
    by (cases "fetchChunks env w (personIds_of people) 0 Map.empty")
  have "tables w1 = tables w" "store_faults w1 = store_faults w"
    using fetchChunks_world [of env w "personIds_of people" 0 Map.empty] f by simp_all
  then show ?thesis
    using syncLegislators_loop_frame [of T w1 pm people "[]"] f
    by (simp add: syncLegislators_def Let_def)
qed

lemma syncSubject_frame:
  "(T \<noteq> ''Subjects'' \<longrightarrow> tables (snd (syncSubject w s)) T = tables w T)
   \<and> (store_faults w = [] \<longrightarrow> store_faults (snd (syncSubject w s)) = [])
   \<and> api_calls (snd (syncSubject w s)) = api_calls w"
  by (simp add: syncSubject_def Let_def findOrCreateRecord_other_table
      findOrCreateRecord_no_faults findOrCreateRecord_api_calls)

lemma syncSubjects_loop_frame:
  "(T \<noteq> ''Subjects'' \<longrightarrow> tables (snd (syncSubjects_loop w ss acc)) T = tables w T)
   \<and> (store_faults w = [] \<longrightarrow> store_faults (snd (syncSubjects_loop w ss acc)) = [])
   \<and> api_calls (snd (syncSubjects_loop w ss acc)) = api_calls w"
proof (induction ss arbitrary: w acc)
  case Nil
  then show ?case by simp
next
  case (Cons x ss)
  obtain r w1 where s: "syncSubject w x = (r, w1)"
    by (cases "syncSubject w x")
  have w1: "T \<noteq> ''Subjects'' \<longrightarrow> tables w1 T = tables w T"
    "store_faults w = [] \<longrightarrow> store_faults w1 = []" "api_calls w1 = api_calls w"
    using syncSubject_frame [of T w x] s by simp_all
  show ?case
  proof (cases r)
    case (Inl e)
    with s w1 Cons.IH [of w1 acc] show ?thesis by simp
  next
    case (Inr i)
    with s w1 Cons.IH [of w1 "acc @ [i]"] show ?thesis by simp
  qed
qed

subsection \<open>Bill sync, run twice\<close>

lemma billFields_key:
  "billFields st b l i sp su ''OpenStates ID'' = Some (Str (or_empty (bill_id b)))"
  by (simp add: billFields_def Let_def set_optional_other split: list.splits)

lemma billRecordData_key:
  "\<exists>rd. billRecordData parse st b sp su = Inr rd
        \<and> rd ''OpenStates ID'' = Some (Str (or_empty (bill_id b)))"
proof -
  obtain l where l: "normalizeDate parse (latest_action_date b) = Inr l"
    using normalizeDate_returns by blast
  obtain i where i: "normalizeDate parse (first_action_date b) = Inr i"
    using normalizeDate_returns by blast
  show ?thesis
    by (simp add: billRecordData_def l i billFields_key)
qed

text \<open>The world in which a bill is reconciled, after its sponsors and subjects.\<close>

lemma syncBill_reconcile:
  "\<exists>w2 rd. syncBill env w st b = findOrCreateRecord w2 ''Bills'' ''OpenStates ID'' (template_of (bill_id b)) rd
     \<and> rd ''OpenStates ID'' = Some (Str (or_empty (bill_id b)))
     \<and> tables w2 ''Bills'' = tables w ''Bills''
     \<and> (store_faults w = [] \<longrightarrow> store_faults w2 = [])"
proof -
  obtain sp w1 where a:
    "(if sponsorships b \<noteq> [] then syncLegislators env w (sponsors_of b) else ([], w)) = (sp, w1)"
    by (metis prod.exhaust)
  have w1: "tables w1 ''Bills'' = tables w ''Bills''" "store_faults w = [] \<longrightarrow> store_faults w1 = []"
    using a syncLegislators_frame [of "''Bills''" env w "sponsors_of b"]
    by (auto split: if_splits)
  obtain su w2 where c:
    "(if bill_subject b \<noteq> [] then syncSubjects w1 (bill_subject b) else ([], w1)) = (su, w2)"
    by (metis prod.exhaust)
  have w2: "tables w2 ''Bills'' = tables w1 ''Bills''" "store_faults w1 = [] \<longrightarrow> store_faults w2 = []"
    using c syncSubjects_loop_frame [of "''Bills''" w1 "bill_subject b" "[]"]
    by (auto simp: syncSubjects_def split: if_splits)
  obtain rd where rd: "billRecordData (date_parse env) st b sp su = Inr rd"
    "rd ''OpenStates ID'' = Some (Str (or_empty (bill_id b)))"
    using billRecordData_key by blast
  have "syncBill env w st b = findOrCreateRecord w2 ''Bills'' ''OpenStates ID'' (template_of (bill_id b)) rd"
    by (simp add: syncBill_def a c rd(1))
  with rd(2) w1 w2 show ?thesis by auto
qed

lemma syncBill_column:
  assumes "store_faults w = []" and "bill_id b = Some i"
  shows "store_faults (snd (syncBill env w st b)) = []
     \<and> key_column ''OpenStates ID'' (tables (snd (syncBill env w st b)) ''Bills'')
         = add_key (Some (Str i)) (key_column ''OpenStates ID'' (tables w ''Bills''))"
proof -
  from syncBill_reconcile [of env w st b] assms obtain w2 rd where
    s: "syncBill env w st b = findOrCreateRecord w2 ''Bills'' ''OpenStates ID'' i rd"
    and rd: "rd ''OpenStates ID'' = Some (Str i)"
    and t: "tables w2 ''Bills'' = tables w ''Bills''" and f: "store_faults w2 = []"
    by auto
  show ?thesis
    using findOrCreateRecord_column
        [where w = w2 and rd = rd and f = "''OpenStates ID''" and v = i and T = "''Bills''"]
      findOrCreateRecord_no_faults [OF f] f rd
    by (simp add: s t)
qed

lemma syncBills_loop_column:
  assumes "store_faults w = []" and "\<forall>b\<in>set bs. bill_id b \<noteq> None"
  shows "store_faults (snd (syncBills_loop env w st bs n)) = []
     \<and> key_column ''OpenStates ID'' (tables (snd (syncBills_loop env w st bs n)) ''Bills'')
         = fold add_key (map bill_key bs) (key_column ''OpenStates ID'' (tables w ''Bills''))"
  using assms
proof (induction bs arbitrary: w n)
  case Nil
  then show ?case by simp
next
  case (Cons b bs)
  then obtain i where i: "bill_id b = Some i" by auto
  obtain r w1 where s: "syncBill env w st b = (r, w1)"
    by (cases "syncBill env w st b")
  from syncBill_column [OF Cons.prems(1) i, of env st] s
  have w1: "store_faults w1 = []"
    "key_column ''OpenStates ID'' (tables w1 ''Bills'')
       = add_key (bill_key b) (key_column ''OpenStates ID'' (tables w ''Bills''))"
    by (simp_all add: bill_key_def i)
  have rest: "\<forall>b\<in>set bs. bill_id b \<noteq> None"
    using Cons.prems(2) by simp
  show ?case
  proof (cases r)
    case (Inl e)
    with s w1 Cons.IH [OF w1(1) rest, of n] show ?thesis by simp
  next
    case (Inr x)
    with s w1 Cons.IH [OF w1(1) rest, of "n + 1"] show ?thesis by simp
  qed
qed

lemma fold_add_key_set: "set (fold add_key ks col) = set ks \<union> set col"
  by (induction ks arbitrary: col) (auto simp: add_key_def)

lemma fold_add_key_present: "set ks \<subseteq> set col \<Longrightarrow> fold add_key ks col = col"
  by (induction ks arbitrary: col) (auto simp: add_key_def)

lemma syncBills_column:
  assumes "store_faults w = []" and "bills_api env (toLowerCase st) limit = Inr bs"
    and "\<forall>b\<in>set bs. bill_id b \<noteq> None"
  shows "store_faults (snd (syncBills env w st limit)) = []
     \<and> key_column ''OpenStates ID'' (tables (snd (syncBills env w st limit)) ''Bills'')
         = fold add_key (map bill_key bs) (key_column ''OpenStates ID'' (tables w ''Bills''))"
proof -
  let ?w1 = "w\<lparr>api_calls := api_calls w @ [GetBills (toLowerCase st) limit]\<rparr>"
  have "store_faults ?w1 = []" using assms(1) by simp
  from syncBills_loop_column [OF this assms(3), of env st 0]
  show ?thesis
    using assms(2) by (auto simp: syncBills_def fetchBills_def split: prod.splits)
qed

lemma syncBills_failed_fetch:
  "bills_api env (toLowerCase st) limit = Inl e \<Longrightarrow>
   tables (snd (syncBills env w st limit)) = tables w"
  by (simp add: syncBills_def fetchBills_def)

lemma length_key_column: "length (key_column f rows) = length rows"
  by (simp add: key_column_def)

lemma syncBills_twice:
  assumes "store_faults w = []"
    and "\<forall>bs. bills_api env (toLowerCase st) limit = Inr bs \<longrightarrow> (\<forall>b\<in>set bs. bill_id b \<noteq> None)"
  shows "length (tables (snd (syncBills env (snd (syncBills env w st limit)) st limit)) ''Bills'')
       = length (tables (snd (syncBills env w st limit)) ''Bills'')"
proof (cases "bills_api env (toLowerCase st) limit")
  case (Inl e)
  then show ?thesis by (simp add: syncBills_failed_fetch)
next
  case (Inr bs)
  with assms(2) have ids: "\<forall>b\<in>set bs. bill_id b \<noteq> None" by blast
  let ?w1 = "snd (syncBills env w st limit)"
  let ?c = "key_column ''OpenStates ID'' (tables w ''Bills'')"
  from syncBills_column [OF assms(1) Inr ids]
  have f1: "store_faults ?w1 = []"
    and c1: "key_column ''OpenStates ID'' (tables ?w1 ''Bills'') = fold add_key (map bill_key bs) ?c"
    by simp_all
  from syncBills_column [OF f1 Inr ids]
  have "key_column ''OpenStates ID'' (tables (snd (syncBills env ?w1 st limit)) ''Bills'')
      = fold add_key (map bill_key bs) (fold add_key (map bill_key bs) ?c)"
    by (simp add: c1)
  also have "\<dots> = fold add_key (map bill_key bs) ?c"
    by (rule fold_add_key_present) (simp add: fold_add_key_set)
  finally have "key_column ''OpenStates ID'' (tables (snd (syncBills env ?w1 st limit)) ''Bills'')
      = key_column ''OpenStates ID'' (tables ?w1 ''Bills'')"
    by (simp add: c1)
  then show ?thesis
    using length_key_column by metis
qed

lemma findOrCreateRecord_fault:
  "store_faults w = Some m # fs \<Longrightarrow>
   findOrCreateRecord w T f v rd = (Inl (Error m), w\<lparr>store_faults := fs\<rparr>)"
  by (simp add: findOrCreateRecord_def select_first_def next_fault_def)

lemma syncBill_plain:
  assumes "sponsorships b = []" and "bill_subject b = []"
  shows "\<exists>rd. syncBill env w st b
            = findOrCreateRecord w ''Bills'' ''OpenStates ID'' (template_of (bill_id b)) rd
          \<and> rd ''OpenStates ID'' = Some (Str (or_empty (bill_id b)))"
proof -
  obtain rd where rd: "billRecordData (date_parse env) st b [] [] = Inr rd"
    "rd ''OpenStates ID'' = Some (Str (or_empty (bill_id b)))"
    using billRecordData_key by blast
  have "syncBill env w st b
          = findOrCreateRecord w ''Bills'' ''OpenStates ID'' (template_of (bill_id b)) rd"
    using assms rd(1) by (simp add: syncBill_def)
  with rd(2) show ?thesis by blast
qed

lemma syncBills_single:
  assumes "bills_api env (toLowerCase st) limit = Inr [b]"
  shows "tables (snd (syncBills env w st limit))
           = tables (snd (syncBill env (w\<lparr>api_calls := api_calls w @ [GetBills (toLowerCase st) limit]\<rparr>) st b))
       \<and> store_faults (snd (syncBills env w st limit))
           = store_faults (snd (syncBill env (w\<lparr>api_calls := api_calls w @ [GetBills (toLowerCase st) limit]\<rparr>) st b))"
  using assms by (auto simp: syncBills_def fetchBills_def split: prod.splits sum.splits)

text \<open>A bill without id is searched as \<open>undefined\<close> and stored with an empty id.\<close>

lemma syncBills_no_id:
  assumes "store_faults w = []" and "bills_api env (toLowerCase st) limit = Inr [b]"
    and "bill_id b = None" and "sponsorships b = []" and "bill_subject b = []"
    and "Some (Str ''undefined'') \<notin> set (key_column ''OpenStates ID'' (tables w ''Bills''))"
  shows "store_faults (snd (syncBills env w st limit)) = []
     \<and> key_column ''OpenStates ID'' (tables (snd (syncBills env w st limit)) ''Bills'')
         = key_column ''OpenStates ID'' (tables w ''Bills'') @ [Some (Str [])]"
proof -
  let ?w1 = "w\<lparr>api_calls := api_calls w @ [GetBills (toLowerCase st) limit]\<rparr>"
  obtain rd where rd:
    "syncBill env ?w1 st b = findOrCreateRecord ?w1 ''Bills'' ''OpenStates ID'' ''undefined'' rd"
    "rd ''OpenStates ID'' = Some (Str [])"
    using syncBill_plain [OF assms(4,5), of env ?w1 st] assms(3) by auto
  have f: "store_faults ?w1 = []" using assms(1) by simp
  have n: "find_record (field_is ''OpenStates ID'' ''undefined'') (tables ?w1 ''Bills'') = None"
    using assms(6) by (simp add: find_record_column)
  show ?thesis
    using syncBills_single [OF assms(2), of w] findOrCreateRecord_new [OF f n, of rd] rd f
    by (simp add: key_column_def)
qed

lemma no_id_env:
  "bills_api (env_with_bills bs) jur n = Inr bs"
  by (simp add: env_with_bills_def)

lemma no_id_twice:
  "length (tables (snd (syncBills (env_with_bills [bill_with_action None]) empty_world ''ca'' 50)) ''Bills'') = 1
   \<and> length (tables (snd (syncBills (env_with_bills [bill_with_action None])
        (snd (syncBills (env_with_bills [bill_with_action None]) empty_world ''ca'' 50)) ''ca'' 50)) ''Bills'') = 2"
proof -
  let ?e = "env_with_bills [bill_with_action None]"
  let ?b = "bill_with_action None"
  let ?w1 = "snd (syncBills ?e empty_world ''ca'' 50)"
  have b: "bill_id ?b = None" "sponsorships ?b = []" "bill_subject ?b = []"
    by (simp_all add: bill_with_action_def)
  have e: "store_faults empty_world = []" "key_column ''OpenStates ID'' (tables empty_world ''Bills'') = []"
    by (simp_all add: empty_world_def key_column_def)
  have 1: "store_faults ?w1 = []"
    "key_column ''OpenStates ID'' (tables ?w1 ''Bills'') = [Some (Str [])]"
    using syncBills_no_id
        [where w = empty_world and env = ?e and st = "''ca''" and limit = 50 and b = ?b,
          OF e(1) no_id_env b]
      e(2)
    by simp_all
  have "Some (Str ''undefined'') \<notin> set (key_column ''OpenStates ID'' (tables ?w1 ''Bills''))"
    by (simp add: 1(2))
  from syncBills_no_id
    [where w = ?w1 and env = ?e and st = "''ca''" and limit = 50 and b = ?b,
      OF 1(1) no_id_env b this]
  have 2: "key_column ''OpenStates ID'' (tables (snd (syncBills ?e ?w1 ''ca'' 50)) ''Bills'')
      = [Some (Str []), Some (Str [])]"
    by (simp add: 1(2))
  have "length (key_column ''OpenStates ID'' (tables ?w1 ''Bills'')) = 1"
    "length (key_column ''OpenStates ID'' (tables (snd (syncBills ?e ?w1 ''ca'' 50)) ''Bills'')) = 2"
    by (simp_all add: 1(2) 2)
  then show ?thesis
    by (simp add: length_key_column)
qed

lemma failed_write_then_created:
  "length (tables (snd (syncBills (env_with_bills [identified_bill ''b1'']) failing_store_world ''ca'' 50)) ''Bills'') = 0
   \<and> length (tables (snd (syncBills (env_with_bills [identified_bill ''b1''])
        (snd (syncBills (env_with_bills [identified_bill ''b1'']) failing_store_world ''ca'' 50)) ''ca'' 50)) ''Bills'') = 1"
proof -
  let ?e = "env_with_bills [identified_bill ''b1'']"
  let ?b = "identified_bill ''b1''"
  let ?w0 = "failing_store_world\<lparr>api_calls := api_calls failing_store_world @ [GetBills (toLowerCase ''ca'') 50]\<rparr>"
  let ?w1 = "snd (syncBills ?e failing_store_world ''ca'' 50)"
  have b: "bill_id ?b = Some ''b1''" "sponsorships ?b = []" "bill_subject ?b = []"
    by (simp_all add: identified_bill_def bill_with_action_def)
  obtain rd where rd:
    "syncBill ?e ?w0 ''ca'' ?b = findOrCreateRecord ?w0 ''Bills'' ''OpenStates ID'' ''b1'' rd"
    using syncBill_plain [OF b(2,3), of ?e ?w0 "''ca''"] b(1) by auto
  have "store_faults ?w0 = Some ''store down'' # []"
    by (simp add: failing_store_world_def)
  from findOrCreateRecord_fault [OF this, of "''Bills''" "''OpenStates ID''" "''b1''" rd]
  have s: "syncBill ?e ?w0 ''ca'' ?b = (Inl (Error ''store down''), ?w0\<lparr>store_faults := []\<rparr>)"
    by (simp add: rd)
  have 1: "tables ?w1 = tables failing_store_world" "store_faults ?w1 = []"
    using syncBills_single
        [where env = ?e and st = "''ca''" and limit = 50 and b = ?b and w = failing_store_world,
          OF no_id_env] s
    by simp_all
  have t: "tables ?w1 ''Bills'' = []"
    by (simp add: 1(1)) (simp add: failing_store_world_def)
  have ids: "\<forall>x\<in>set [?b]. bill_id x \<noteq> None"
    using b(1) by simp
  from syncBills_column
    [where w = ?w1 and env = ?e and st = "''ca''" and limit = 50 and bs = "[?b]",
      OF 1(2) no_id_env ids]
  have "key_column ''OpenStates ID'' (tables (snd (syncBills ?e ?w1 ''ca'' 50)) ''Bills'')
      = [bill_key ?b]"
    by (simp add: t key_column_def add_key_def)
  then have "length (key_column ''OpenStates ID'' (tables (snd (syncBills ?e ?w1 ''ca'' 50)) ''Bills'')) = 1"
    by simp
  then show ?thesis
    by (simp add: length_key_column t)
qed

text \<open>
  C1, as the claim states it, fails in two ways. A bill that comes without an id is
  searched under the text \<open>undefined\<close> and stored with an empty id, so every sync
  creates one more record for it. And when the write of a bill fails in the first sync
  (the error is caught and the bill skipped) and succeeds in the second, the second sync
  adds the record.
\<close>

theorem syncBills_twice_counterexample:
  "store_faults empty_world = []
   \<and> length (tables (snd (syncBills (env_with_bills [bill_with_action None]) empty_world ''ca'' 50)) ''Bills'') = 1
   \<and> length (tables (snd (syncBills (env_with_bills [bill_with_action None])
        (snd (syncBills (env_with_bills [bill_with_action None]) empty_world ''ca'' 50)) ''ca'' 50)) ''Bills'') = 2
   \<and> length (tables (snd (syncBills (env_with_bills [identified_bill ''b1'']) failing_store_world ''ca'' 50)) ''Bills'') = 0
   \<and> length (tables (snd (syncBills (env_with_bills [identified_bill ''b1''])
        (snd (syncBills (env_with_bills [identified_bill ''b1'']) failing_store_world ''ca'' 50)) ''ca'' 50)) ''Bills'') = 1"
  using no_id_twice failed_write_then_created by (simp add: empty_world_def)

text \<open>
  C1, amended. As long as no request to the store fails: when the table holds a record
  whose key field is the key value, the reconciler merges the field set into the first
  such record, returns its id and creates nothing; when no record matches, it appends
  one record with the field set and returns the new id. Consequently, when every bill
  of the upstream answer carries an id, a second bill sync over the same upstream data
  leaves the number of records in the Bills table as the first sync left it.
\<close>

theorem reconcile_upsert_idempotent:
  "store_faults w = [] \<longrightarrow>
     ((\<exists>r\<in>set (tables w T). field_is f v r) \<longrightarrow>
        (\<exists>i<length (tables w T). field_is f v (tables w T ! i)
           \<and> (\<forall>j<i. \<not> field_is f v (tables w T ! j))
           \<and> findOrCreateRecord w T f v rd =
               (Inr i, w\<lparr>tables := (tables w)(T := (tables w T)[i := (tables w T ! i) ++ rd])\<rparr>)))
   \<and> ((\<forall>r\<in>set (tables w T). \<not> field_is f v r) \<longrightarrow>
        findOrCreateRecord w T f v rd =
          (Inr (length (tables w T)), w\<lparr>tables := (tables w)(T := tables w T @ [rd])\<rparr>))
   \<and> ((\<forall>bs. bills_api env (toLowerCase st) limit = Inr bs \<longrightarrow> (\<forall>b\<in>set bs. bill_id b \<noteq> None)) \<longrightarrow>
        length (tables (snd (syncBills env (snd (syncBills env w st limit)) st limit)) ''Bills'')
          = length (tables (snd (syncBills env w st limit)) ''Bills''))"
proof (intro impI conjI)
  assume f: "store_faults w = []"
  {
    assume "\<exists>r\<in>set (tables w T). field_is f v r"
    then obtain i where i: "find_record (field_is f v) (tables w T) = Some i"
      using find_record_ex by blast
    from find_record_Some [OF i] findOrCreateRecord_found [OF f i, of rd]
    show "\<exists>i<length (tables w T). field_is f v (tables w T ! i)
           \<and> (\<forall>j<i. \<not> field_is f v (tables w T ! j))
           \<and> findOrCreateRecord w T f v rd =
               (Inr i, w\<lparr>tables := (tables w)(T := (tables w T)[i := (tables w T ! i) ++ rd])\<rparr>)"
      by blast
  }
  {
    assume "\<forall>r\<in>set (tables w T). \<not> field_is f v r"
    then have "find_record (field_is f v) (tables w T) = None"
      by (simp add: find_record_None)
    from findOrCreateRecord_new [OF f this, of rd]
    show "findOrCreateRecord w T f v rd =
          (Inr (length (tables w T)), w\<lparr>tables := (tables w)(T := tables w T @ [rd])\<rparr>)" .
  }
  {
    assume "\<forall>bs. bills_api env (toLowerCase st) limit = Inr bs \<longrightarrow> (\<forall>b\<in>set bs. bill_id b \<noteq> None)"
    from syncBills_twice [OF f this]
    show "length (tables (snd (syncBills env (snd (syncBills env w st limit)) st limit)) ''Bills'')
          = length (tables (snd (syncBills env w st limit)) ''Bills'')" .
  }
qed

text \<open>
  Witness of C1: a store that holds the bill, an empty store, and an upstream answer of
  one bill with an id.
\<close>

theorem reconcile_upsert_idempotent_witness:
  "store_faults one_bill_world = []
   \<and> field_is ''OpenStates ID'' ''b1'' (hd (tables one_bill_world ''Bills''))
   \<and> fst (findOrCreateRecord one_bill_world ''Bills'' ''OpenStates ID'' ''b1''
            [''Title'' \<mapsto> Str ''An act''])
       = Inr 0
   \<and> store_faults empty_world = []
   \<and> tables empty_world ''Bills'' = []
   \<and> fst (findOrCreateRecord empty_world ''Bills'' ''OpenStates ID'' ''b1''
            [''OpenStates ID'' \<mapsto> Str ''b1''])
       = Inr 0
   \<and> bills_api (env_with_bills [identified_bill ''b1'']) (toLowerCase ''ca'') 50
       = Inr [identified_bill ''b1'']
   \<and> bill_id (identified_bill ''b1'') = Some ''b1''
   \<and> length (tables (snd (syncBills (env_with_bills [identified_bill ''b1''])
          (snd (syncBills (env_with_bills [identified_bill ''b1'']) one_bill_world ''ca'' 50))
          ''ca'' 50)) ''Bills'')
       = length (tables (snd (syncBills (env_with_bills [identified_bill ''b1''])
           one_bill_world ''ca'' 50)) ''Bills'')"
proof -
  let ?e = "env_with_bills [identified_bill ''b1'']"
  have a: "store_faults one_bill_world = []"
    "field_is ''OpenStates ID'' ''b1'' (hd (tables one_bill_world ''Bills''))"
    "tables one_bill_world ''Bills'' \<noteq> []"
    "length (tables one_bill_world ''Bills'') = 1"
    by (simp_all add: one_bill_world_def field_is_def)
  then have a': "\<exists>r\<in>set (tables one_bill_world ''Bills''). field_is ''OpenStates ID'' ''b1'' r"
    using hd_in_set by blast
  have b: "store_faults empty_world = []" "tables empty_world ''Bills'' = []"
    by (simp_all add: empty_world_def)
  have c: "bills_api ?e (toLowerCase ''ca'') 50 = Inr [identified_bill ''b1'']"
    "bill_id (identified_bill ''b1'') = Some ''b1''"
    by (simp_all add: no_id_env identified_bill_def)
  then have c': "\<forall>bs. bills_api ?e (toLowerCase ''ca'') 50 = Inr bs
      \<longrightarrow> (\<forall>b\<in>set bs. bill_id b \<noteq> None)"
    by simp
  from reconcile_upsert_idempotent
    [of one_bill_world "''Bills''" "''OpenStates ID''" "''b1''" "[''Title'' \<mapsto> Str ''An act'']"
      ?e "''ca''" 50] a a' c'
  have 1: "fst (findOrCreateRecord one_bill_world ''Bills'' ''OpenStates ID'' ''b1''
            [''Title'' \<mapsto> Str ''An act'']) = Inr 0"
    and 3: "length (tables (snd (syncBills ?e (snd (syncBills ?e one_bill_world ''ca'' 50))
          ''ca'' 50)) ''Bills'')
       = length (tables (snd (syncBills ?e one_bill_world ''ca'' 50)) ''Bills'')"
    by auto
  from reconcile_upsert_idempotent
    [of empty_world "''Bills''" "''OpenStates ID''" "''b1''" "[''OpenStates ID'' \<mapsto> Str ''b1'']"
      ?e "''ca''" 50] b
  have 2: "fst (findOrCreateRecord empty_world ''Bills'' ''OpenStates ID'' ''b1''
            [''OpenStates ID'' \<mapsto> Str ''b1'']) = Inr 0"
    by auto
  from a b c 1 2 3 show ?thesis by blast
qed

subsection \<open>The links of a bill record\<close>





lemma billFields_sponsors:
  "billFields st b l i sp su ''Sponsors'' = (if sp = [] then None else Some (RecIds (take 10 sp)))"
  by (simp add: billFields_def Let_def set_optional_other split: list.splits)

lemma billFields_subjects:
  "billFields st b l i sp su ''Subject Areas'' = (if su = [] then None else Some (RecIds (take 10 su)))"
  by (simp add: billFields_def Let_def set_optional_other split: list.splits)

lemma syncBill_record:
  "\<exists>w2 l i su. syncBill env w st b =
      findOrCreateRecord w2 ''Bills'' ''OpenStates ID'' (template_of (bill_id b))
        (billFields st b l i
           (if sponsorships b \<noteq> [] then fst (syncLegislators env w (sponsors_of b)) else []) su)"
proof -
  obtain sp w1 where a:
    "(if sponsorships b \<noteq> [] then syncLegislators env w (sponsors_of b) else ([], w)) = (sp, w1)"
    by (metis prod.exhaust)
  then have sp: "sp = (if sponsorships b \<noteq> [] then fst (syncLegislators env w (sponsors_of b)) else [])"
    by (auto split: if_splits)
  obtain su w2 where c:
    "(if bill_subject b \<noteq> [] then syncSubjects w1 (bill_subject b) else ([], w1)) = (su, w2)"
    by (metis prod.exhaust)
  obtain l where l: "normalizeDate (date_parse env) (latest_action_date b) = Inr l"
    using normalizeDate_returns by blast
  obtain i where i: "normalizeDate (date_parse env) (first_action_date b) = Inr i"
    using normalizeDate_returns by blast
  have "syncBill env w st b =
      findOrCreateRecord w2 ''Bills'' ''OpenStates ID'' (template_of (bill_id b))
        (billFields st b l i sp su)"
    by (simp add: syncBill_def a c billRecordData_def l i)
  with sp show ?thesis by blast
qed

lemma syncBill_sponsors_written:
  assumes "length (sponsors_of b) = 15"
    and "length (fst (syncLegislators env w (sponsors_of b))) = 15"
    and "fst (syncBill env w st b) = Inr r"
  shows "(tables (snd (syncBill env w st b)) ''Bills'' ! r) ''Sponsors''
           = Some (RecIds (take 10 (fst (syncLegislators env w (sponsors_of b)))))
       \<and> length (take 10 (fst (syncLegislators env w (sponsors_of b)))) = 10"
proof -
  let ?sp = "fst (syncLegislators env w (sponsors_of b))"
  have "sponsors_of b \<noteq> []" using assms(1) by auto
  then have ne: "sponsorships b \<noteq> []"
    by (auto simp: sponsors_of_def List.map_filter_def)
  from syncBill_record [of env w st b] ne obtain w2 l i su where
    s: "syncBill env w st b =
      findOrCreateRecord w2 ''Bills'' ''OpenStates ID'' (template_of (bill_id b))
        (billFields st b l i ?sp su)"
    by auto
  have sp: "?sp \<noteq> []" using assms(2) by auto
  have "findOrCreateRecord w2 ''Bills'' ''OpenStates ID'' (template_of (bill_id b))
        (billFields st b l i ?sp su) = (Inr r, snd (syncBill env w st b))"
    using assms(3) s by (metis prod.collapse)
  from findOrCreateRecord_written [OF this] billFields_sponsors [of st b l i ?sp su] sp
  have "(tables (snd (syncBill env w st b)) ''Bills'' ! r) ''Sponsors'' = Some (RecIds (take 10 ?sp))"
    by simp
  with assms(2) show ?thesis by simp
qed

lemma sponsors_of_stubs: "sponsors_of (bill_with_sponsors ps) = ps"
  by (simp add: sponsors_of_def bill_with_sponsors_def List.map_filter_def comp_def)

lemma syncBill_first:
  assumes "store_faults w = []" and "tables w ''Bills'' = []"
  shows "fst (syncBill env w st b) = Inr 0"
proof -
  from syncBill_reconcile [of env w st b] assms obtain w2 rd where
    s: "syncBill env w st b
          = findOrCreateRecord w2 ''Bills'' ''OpenStates ID'' (template_of (bill_id b)) rd"
    and t: "tables w2 ''Bills'' = []" and f: "store_faults w2 = []"
    by auto
  have "find_record (field_is ''OpenStates ID'' (template_of (bill_id b))) (tables w2 ''Bills'') = None"
    by (simp add: t)
  from findOrCreateRecord_new [OF f this, of rd] show ?thesis
    by (simp add: s t)
qed

lemma fifteen_sponsor_ids:
  "fst (syncLegislators quiet_env empty_world (stubs ''abcdefghijklmno''))
     = [0, 1, 2, 3, 4, 5, 6, 7, 8, 9, 10, 11, 12, 13, 14]"
  by code_simp

text \<open>
  C9. The field set that the bill sync passes to the reconciler is built by
  \<open>billFields\<close>, whose sponsor links are the first 10 of the ids returned by the
  legislator sync and whose subject links are the first 10 of the ids returned by the
  subject sync, so neither list has more than 10 entries. When the sponsorships of a
  bill give 15 stubs, the legislator sync returns 15 ids for them and the bill record
  is written, the \<open>Sponsors\<close> field of that record holds exactly the first 10 of the
  15 ids, in their order.
\<close>

theorem bill_links_capped:
  "(\<exists>w2 l i sp su.
       syncBill env w st b =
         findOrCreateRecord w2 ''Bills'' ''OpenStates ID'' (template_of (bill_id b))
           (billFields st b l i sp su))
   \<and> billFields st' b' l' i' sponsorIds subjectIds ''Sponsors''
       = (if sponsorIds = [] then None else Some (RecIds (take 10 sponsorIds)))
   \<and> billFields st' b' l' i' sponsorIds subjectIds ''Subject Areas''
       = (if subjectIds = [] then None else Some (RecIds (take 10 subjectIds)))
   \<and> length (take 10 sponsorIds) \<le> 10 \<and> length (take 10 subjectIds) \<le> 10
   \<and> (length (sponsors_of b) = 15
        \<and> length (fst (syncLegislators env w (sponsors_of b))) = 15
        \<and> fst (syncBill env w st b) = Inr r \<longrightarrow>
          (tables (snd (syncBill env w st b)) ''Bills'' ! r) ''Sponsors''
            = Some (RecIds (take 10 (fst (syncLegislators env w (sponsors_of b)))))
          \<and> length (take 10 (fst (syncLegislators env w (sponsors_of b)))) = 10)"
proof -
  have "\<exists>w2 l i sp su.
       syncBill env w st b =
         findOrCreateRecord w2 ''Bills'' ''OpenStates ID'' (template_of (bill_id b))
           (billFields st b l i sp su)"
    using syncBill_record [of env w st b] by blast
  then show ?thesis
    using billFields_sponsors [of st' b' l' i' sponsorIds subjectIds]
      billFields_subjects [of st' b' l' i' sponsorIds subjectIds]
      syncBill_sponsors_written [of b env w st r]
    by simp
qed

text \<open>
  Witness of C9: a bill with 15 sponsors is synced into an empty store; the sponsors
  get the ids 0 to 14 and the bill record links 0 to 9.
\<close>

theorem bill_links_capped_witness:
  "length (sponsors_of (bill_with_sponsors (stubs ''abcdefghijklmno''))) = 15
   \<and> length (fst (syncLegislators quiet_env empty_world
        (sponsors_of (bill_with_sponsors (stubs ''abcdefghijklmno''))))) = 15
   \<and> fst (syncBill quiet_env empty_world ''ca'' (bill_with_sponsors (stubs ''abcdefghijklmno'')))
       = Inr 0
   \<and> (tables (snd (syncBill quiet_env empty_world ''ca''
          (bill_with_sponsors (stubs ''abcdefghijklmno'')))) ''Bills'' ! 0) ''Sponsors''
       = Some (RecIds [0, 1, 2, 3, 4, 5, 6, 7, 8, 9])"
proof -
  let ?b = "bill_with_sponsors (stubs ''abcdefghijklmno'')"
  have a: "length (sponsors_of ?b) = 15"
    by (simp add: sponsors_of_stubs stubs_def)
  have ids: "fst (syncLegislators quiet_env empty_world (sponsors_of ?b))
      = [0, 1, 2, 3, 4, 5, 6, 7, 8, 9, 10, 11, 12, 13, 14]"
    by (simp add: sponsors_of_stubs fifteen_sponsor_ids)
  then have b: "length (fst (syncLegislators quiet_env empty_world (sponsors_of ?b))) = 15"
    by simp
  have c: "fst (syncBill quiet_env empty_world ''ca'' ?b) = Inr 0"
    by (rule syncBill_first) (simp_all add: empty_world_def)
  from bill_links_capped [of quiet_env empty_world "''ca''" ?b _ _ _ _ _ _ 0] a b c
  have "(tables (snd (syncBill quiet_env empty_world ''ca'' ?b)) ''Bills'' ! 0) ''Sponsors''
      = Some (RecIds (take 10 (fst (syncLegislators quiet_env empty_world (sponsors_of ?b)))))"
    by blast
  then have "(tables (snd (syncBill quiet_env empty_world ''ca'' ?b)) ''Bills'' ! 0) ''Sponsors''
      = Some (RecIds [0, 1, 2, 3, 4, 5, 6, 7, 8, 9])"
    by (simp add: ids)
  with a b c show ?thesis by blast
qed

subsection \<open>The chunked people lookup\<close>


















subsection \<open>The jurisdiction record of a state\<close>

lemma find_record_first:
  "i < length rs \<Longrightarrow> P (rs ! i) \<Longrightarrow> \<forall>j<i. \<not> P (rs ! j) \<Longrightarrow> find_record P rs = Some i"
proof (induction rs arbitrary: i)
  case Nil
  then show ?case by simp
next
  case (Cons r rs)
  show ?case
  proof (cases i)
    case 0
    with Cons.prems show ?thesis by simp
  next
    case (Suc k)
    with Cons.prems have "\<not> P r" by auto
    moreover have "find_record P rs = Some k"
      using Cons.prems Suc by (intro Cons.IH) auto
    ultimately show ?thesis using Suc by simp
  qed
qed

text \<open>Reconciling again by a key that the field set carries finds the same record.\<close>

lemma findOrCreateRecord_again:
  assumes "store_faults w = []" and "rd f = Some (Str v)"
  shows "fst (findOrCreateRecord (snd (findOrCreateRecord w T f v rd)) T f v rd')
           = fst (findOrCreateRecord w T f v rd)"
proof (cases "find_record (field_is f v) (tables w T)")
  case None
  let ?w1 = "w\<lparr>tables := (tables w)(T := tables w T @ [rd])\<rparr>"
  have 1: "findOrCreateRecord w T f v rd = (Inr (length (tables w T)), ?w1)"
    by (rule findOrCreateRecord_new [OF assms(1) None])
  have "\<forall>j<length (tables w T). \<not> field_is f v (tables w T ! j)"
    using None by (simp add: find_record_None)
  then have "find_record (field_is f v) (tables ?w1 T) = Some (length (tables w T))"
    using assms(2) by (intro find_record_first) (simp_all add: field_is_def nth_append)
  moreover have "store_faults ?w1 = []" using assms(1) by simp
  ultimately show ?thesis
    using findOrCreateRecord_found [of ?w1 f v T "length (tables w T)" rd']
    by (simp add: 1)
next
  case (Some i)
  let ?w1 = "w\<lparr>tables := (tables w)(T := (tables w T)[i := (tables w T ! i) ++ rd])\<rparr>"
  have 1: "findOrCreateRecord w T f v rd = (Inr i, ?w1)"
    by (rule findOrCreateRecord_found [OF assms(1) Some])
  from find_record_Some [OF Some]
  have i: "i < length (tables w T)" and no: "\<forall>j<i. \<not> field_is f v (tables w T ! j)"
    by simp_all
  have "find_record (field_is f v) (tables ?w1 T) = Some i"
    using i no assms(2) by (intro find_record_first) (simp_all add: field_is_def)
  moreover have "store_faults ?w1 = []" using assms(1) by simp
  ultimately show ?thesis
    using findOrCreateRecord_found [of ?w1 f v T i rd']
    by (simp add: 1)
qed

lemma stateRecordData_abbr:
  "truthy (state_abbr j) \<Longrightarrow> stateRecordData j ''Abbreviation'' = Some (Str (state_key j))"
  by (simp add: stateRecordData_def state_key_def Let_def set_optional_other set_optional_same
      split: list.splits)

text \<open>
  When the abbreviation can be extracted and the store does not fail, a second sync of
  the jurisdiction reconciles to the record of the first.
\<close>

lemma syncState_fst:
  "fst (syncState w j) =
     (case fst (findOrCreateRecord w ''States'' ''Abbreviation'' (state_key j) (stateRecordData j)) of
        Inl e \<Rightarrow> None
      | Inr i \<Rightarrow> Some i)"
  by (simp add: syncState_def split: prod.splits sum.splits)

lemma syncState_snd:
  "snd (syncState w j) =
     snd (findOrCreateRecord w ''States'' ''Abbreviation'' (state_key j) (stateRecordData j))"
  by (simp add: syncState_def split: prod.splits sum.splits)

lemma syncState_same_record:
  assumes "store_faults w = []" and "truthy (state_abbr j)"
  shows "fst (syncState (snd (syncState w j)) j) = fst (syncState w j)"
proof -
  let ?r = "findOrCreateRecord w ''States'' ''Abbreviation'' (state_key j) (stateRecordData j)"
  have "fst (findOrCreateRecord (snd ?r) ''States'' ''Abbreviation'' (state_key j) (stateRecordData j))
      = fst ?r"
    using findOrCreateRecord_again
        [where w = w and rd = "stateRecordData j" and f = "''Abbreviation''"
          and v = "state_key j" and T = "''States''" and rd' = "stateRecordData j"]
      assms(1) stateRecordData_abbr [OF assms(2)]
    by simp
  then show ?thesis
    by (simp only: syncState_fst syncState_snd)
qed

end
